theory Spec2Isabelle
  imports Complex_Main "HOL-Library.Sublist"
begin

section \<open>Strings as Python uses them\<close>

text \<open>
  A Python \<open>str\<close> is modelled as a \<open>string\<close> whose characters are the code points
  below 256. On that range the classes the source relies on are exactly the ones
  written here: \<open>[0-9]\<close> and \<open>\d\<close> both mean the ten ASCII digits, and
  \<open>str.strip\<close> removes the code points for which \<open>str.isspace\<close> holds.
\<close>

definition is_digit :: "char \<Rightarrow> bool" where
  "is_digit c = (c \<in> set ''0123456789'')"

definition is_space :: "char \<Rightarrow> bool" where
  "is_space c = (of_char c \<in> set [9, 10, 11, 12, 13, 28, 29, 30, 31, 32, 133, 160 :: nat])"

text \<open>\<open>s.strip()\<close>: whitespace removed at both ends, the inside kept.\<close>

definition strip :: "string \<Rightarrow> string" where
  "strip s = rev (dropWhile is_space (rev (dropWhile is_space s)))"

text \<open>\<open>s.lower()\<close> on code points below 256: A-Z and the Latin-1 capitals move by 32.\<close>

definition lower_char :: "char \<Rightarrow> char" where
  "lower_char c =
     (let n = (of_char c :: nat) in
      if (65 \<le> n \<and> n \<le> 90) \<or> (192 \<le> n \<and> n \<le> 222 \<and> n \<noteq> 215)
      then char_of (n + 32) else c)"

definition lower :: "string \<Rightarrow> string" where
  "lower s = map lower_char s"

text \<open>\<open>sub in s\<close>: some position of \<open>s\<close> starts with \<open>sub\<close>.\<close>

fun str_contains :: "string \<Rightarrow> string \<Rightarrow> bool" where
  "str_contains sub [] = (sub = [])"
| "str_contains sub (c # cs) = (prefix sub (c # cs) \<or> str_contains sub cs)"

text \<open>
  \<open>s.replace(old, new)\<close>: the occurrences of \<open>old\<close> are replaced from the left, without
  overlap. With an empty \<open>old\<close> Python puts \<open>new\<close> before every character and at the end.
\<close>

function str_replace :: "string \<Rightarrow> string \<Rightarrow> string \<Rightarrow> string" where
  "str_replace old new [] = (if old = [] then new else [])"
| "str_replace old new (c # cs) =
     (if old = [] then new @ c # str_replace old new cs
      else if prefix old (c # cs) then new @ str_replace old new (drop (length old) (c # cs))
      else c # str_replace old new cs)"
  by pat_completeness auto
termination
  by (relation "measure (\<lambda>(old, new, s). length s)") auto

text \<open>The decimal value of a string of digits, as \<open>int\<close> reads it, and \<open>str\<close> of a count.\<close>

definition digit_val :: "char \<Rightarrow> nat" where
  "digit_val c = of_char c - 48"

definition nat_of_digits :: "string \<Rightarrow> nat" where
  "nat_of_digits ds = foldl (\<lambda>acc c. 10 * acc + digit_val c) 0 ds"

definition digit_char :: "nat \<Rightarrow> char" where
  "digit_char d = ''0123456789'' ! d"

function str_of_nat :: "nat \<Rightarrow> string" where
  "str_of_nat n = (if n < 10 then [digit_char n] else str_of_nat (n div 10) @ [digit_char (n mod 10)])"
  by pat_completeness auto
termination
  by (relation "measure id") auto

declare str_of_nat.simps [simp del]

text \<open>\<open>re.sub(r'[^0-9\.]', '', s)\<close>: every character that is neither a digit nor a dot goes.\<close>

definition re_sub_non_numeric :: "string \<Rightarrow> string" where
  "re_sub_non_numeric s = filter (\<lambda>c. is_digit c \<or> c = CHR ''.'') s"

text \<open>
  \<open>re.search(r'(\d+) available', s)\<close>, giving group 1 of the leftmost match. At a start
  position the greedy \<open>\d+\<close> takes the whole run of digits; giving digits back cannot help,
  since the next character must be the blank. A position that fails hands over to the next.
\<close>

fun re_search_available :: "string \<Rightarrow> string option" where
  "re_search_available [] = None"
| "re_search_available (c # cs) =
     (if is_digit c \<and> prefix '' available'' (dropWhile is_digit (c # cs))
      then Some (takeWhile is_digit (c # cs))
      else re_search_available cs)"

section \<open>Errors\<close>

text \<open>
  The exceptions the scraper's expressions can raise; \<open>RequestException\<close> is what
  \<open>session.get\<close> raises when no answer comes (no connection, a timeout, too many
  redirects). The source catches none of them.
\<close>

datatype py_error =
  AttributeError | TypeError | IndexError | KeyError | ValueError | RequestException

section \<open>Numbers as Python reads them\<close>

text \<open>
  A Python \<open>float\<close> is an IEEE 754 double. The texts converted here carry no sign, so the
  values are the non-negative doubles, each a rational number, and positive infinity.
\<close>

datatype pyfloat = Finite rat | Infinity

text \<open>The position of the leading bit: \<open>ilog2 n\<close> is the \<open>k\<close> with \<open>2 ^ k \<le> n < 2 ^ (k + 1)\<close>.\<close>

function ilog2 :: "int \<Rightarrow> int" where
  "ilog2 n = (if n < 2 then 0 else ilog2 (n div 2) + 1)"
  by pat_completeness auto
termination
  by (relation "measure nat") auto

declare ilog2.simps [simp del]

text \<open>Rounding to the nearest integer, a tie going to the even one.\<close>

definition round_half_even :: "rat \<Rightarrow> int" where
  "round_half_even x =
     (let f = \<lfloor>x\<rfloor>; d = x - of_int f in
      if d < 1 / 2 then f else if 1 / 2 < d then f + 1 else if even f then f else f + 1)"

text \<open>
  The double nearest to a non-negative rational. The exponent is that of the leading bit, and
  not below \<open>-1022\<close>, where the subnormal numbers begin; the doubles of that exponent are
  the multiples of \<open>2 ^ (exponent - 52)\<close>, and the value is rounded to the nearest of them, a
  tie going to the even multiple. A result of \<open>2 ^ 1024\<close> or more is infinity.
\<close>

definition binary_exponent :: "rat \<Rightarrow> int" where
  "binary_exponent x = max (ilog2 \<lfloor>x * 2 ^ 1074\<rfloor> - 1074) (- 1022)"

definition binary64 :: "rat \<Rightarrow> pyfloat" where
  "binary64 x =
     (let ulp = 2 powi (binary_exponent x - 52);
          v = of_int (round_half_even (x / ulp)) * ulp
      in if 2 ^ 1024 \<le> v then Infinity else Finite v)"

text \<open>The number a decimal text denotes: the integer digits, and the fraction digits.\<close>

definition decimal_value :: "string \<Rightarrow> string \<Rightarrow> rat" where
  "decimal_value ip fp = of_nat (nat_of_digits ip) + of_nat (nat_of_digits fp) / 10 ^ length fp"

text \<open>
  \<open>float(s)\<close> on the strings \<open>re_sub_non_numeric\<close> leaves, which hold digits and dots only:
  digits with at most one dot and at least one digit, anything else is a \<open>ValueError\<close>. The
  result is the double nearest to the decimal the text denotes.
\<close>

definition py_float :: "string \<Rightarrow> py_error + pyfloat" where
  "py_float s =
     (let ip = takeWhile is_digit s; rest = dropWhile is_digit s in
      if rest = [] then (if ip = [] then Inl ValueError else Inr (binary64 (decimal_value ip [])))
      else if hd rest = CHR ''.'' \<and> list_all is_digit (tl rest) \<and> (ip \<noteq> [] \<or> tl rest \<noteq> [])
      then Inr (binary64 (decimal_value ip (tl rest)))
      else Inl ValueError)"

text \<open>
  \<open>int(s)\<close> on a string of digits. CPython from 3.11 on refuses a text of more digits than
  \<open>sys.get_int_max_str_digits()\<close> allows (4300 unless set otherwise, 0 for no limit) with a
  \<open>ValueError\<close>; texts of up to 640 digits are never refused. Leading zeros count.
\<close>

definition py_int :: "nat \<Rightarrow> string \<Rightarrow> py_error + int" where
  "py_int max_str_digits ds =
     (if 640 < length ds \<and> 0 < max_str_digits \<and> max_str_digits < length ds then Inl ValueError
      else Inr (int (nat_of_digits ds)))"

section \<open>The parsed document\<close>

text \<open>
  The document is what BeautifulSoup answers to the queries of the source. A \<open>p\<close> element
  is its class list and its text; \<open>product_main\<close> is the \<open>div.product_main\<close> (absent, or
  present with the text of its \<open>h1\<close> if it has one); \<open>upc_th\<close> is the \<open>th\<close> labelled UPC
  (absent, or present with the text of the next \<open>td\<close> if there is one); \<open>product_pods\<close> are
  the \<open>article.product_pod\<close> elements of a listing page, each with what \<open>book.h3.a['href']\<close>
  finds; \<open>side_categories\<close> are the category anchors, each with its \<open>href\<close> if it has one.
\<close>

record p_tag =
  p_class :: "string list"
  p_text :: string

datatype anchor = NoH3 | NoA | NoHref | Href string

record soup =
  product_main :: "string option option"
  p_tags :: "p_tag list"
  product_description :: "string option"
  breadcrumb :: "string list"
  upc_th :: "string option option"
  product_pods :: "anchor list"
  next_button :: bool
  side_categories :: "string option list"

text \<open>
  \<open>soup.find('p', class_=c)\<close>: the first \<open>p\<close> one of whose classes is \<open>c\<close>, or whose
  whole class attribute is \<open>c\<close> (which is how a value with a blank in it can match).
\<close>

fun join_classes :: "string list \<Rightarrow> string" where
  "join_classes [] = []"
| "join_classes [c] = c"
| "join_classes (c # d # cs) = c @ '' '' @ join_classes (d # cs)"

definition class_matches :: "string \<Rightarrow> p_tag \<Rightarrow> bool" where
  "class_matches c p = (c \<in> set (p_class p) \<or> (p_class p \<noteq> [] \<and> join_classes (p_class p) = c))"

definition find_p :: "string \<Rightarrow> soup \<Rightarrow> p_tag option" where
  "find_p c doc = find (class_matches c) (p_tags doc)"

section \<open>The scraper\<close>

text \<open>
  The world the scraper talks to. \<open>http n url\<close> is what \<open>session.get\<close> does when \<open>url\<close> is
  the request the session makes after \<open>n\<close> earlier ones: it raises, or answers a status code
  and a document. The same address may answer differently at another time. \<open>urljoin\<close> is
  the library function of that name, and \<open>int_max_str_digits\<close> the interpreter's limit on
  the digits of an integer text.
\<close>

record response =
  status_code :: int
  content :: soup

record env =
  http :: "nat \<Rightarrow> string \<Rightarrow> py_error + response"
  urljoin :: "string \<Rightarrow> string \<Rightarrow> string"
  int_max_str_digits :: nat

definition base_url :: string where
  "base_url = ''http://books.toscrape.com/''"

text \<open>
  \<open>get_soup\<close> made as request number \<open>now\<close>: an exception of \<open>session.get\<close> passes
  through, a status other than 200 gives \<open>None\<close>.
\<close>

definition get_soup :: "env \<Rightarrow> nat \<Rightarrow> string \<Rightarrow> py_error + soup option" where
  "get_soup e now url =
     (case http e now url of
        Inl err \<Rightarrow> Inl err
      | Inr response \<Rightarrow>
          Inr (if status_code response = 200 then Some (content response) else None))"

record book =
  title :: string
  price :: pyfloat
  rating :: int
  availability :: bool
  stock_count :: int
  description :: string
  category :: string
  upc :: string
  b_url :: string

subsection \<open>extract_book_data, statement by statement\<close>

definition extract_title :: "soup \<Rightarrow> py_error + string" where
  "extract_title doc =
     (case product_main doc of
        None \<Rightarrow> Inl AttributeError
      | Some None \<Rightarrow> Inl AttributeError
      | Some (Some t) \<Rightarrow> Inr (strip t))"

definition extract_price :: "soup \<Rightarrow> py_error + pyfloat" where
  "extract_price doc =
     (case find_p ''price_color'' doc of
        None \<Rightarrow> Inl AttributeError
      | Some p \<Rightarrow> py_float (re_sub_non_numeric (strip (p_text p))))"

definition stock_count_of :: "env \<Rightarrow> string \<Rightarrow> py_error + int" where
  "stock_count_of e stock_text =
     (case re_search_available stock_text of
        Some ds \<Rightarrow> py_int (int_max_str_digits e) ds
      | None \<Rightarrow> Inr 0)"

definition extract_availability :: "env \<Rightarrow> soup \<Rightarrow> py_error + bool \<times> int" where
  "extract_availability e doc =
     (case find_p ''availability'' doc of
        None \<Rightarrow> Inl AttributeError
      | Some a \<Rightarrow>
          (let in_stock = str_contains ''In stock'' (strip (p_text a)) in
           case find_p ''instock availability'' doc of
             None \<Rightarrow> Inl AttributeError
           | Some s \<Rightarrow>
               (case stock_count_of e (strip (p_text s)) of
                  Inl err \<Rightarrow> Inl err
                | Inr n \<Rightarrow> Inr (in_stock, n))))"

definition rating_map :: "(string \<times> int) list" where
  "rating_map = [(''one'', 1), (''two'', 2), (''three'', 3), (''four'', 4), (''five'', 5)]"

definition extract_rating :: "soup \<Rightarrow> py_error + int" where
  "extract_rating doc =
     (case find_p ''star-rating'' doc of
        None \<Rightarrow> Inl TypeError
      | Some p \<Rightarrow>
          if length (p_class p) < 2 then Inl IndexError
          else (case map_of rating_map (lower (p_class p ! 1)) of
                  Some r \<Rightarrow> Inr r
                | None \<Rightarrow> Inr 0))"

definition extract_description :: "soup \<Rightarrow> string" where
  "extract_description doc =
     (case product_description doc of
        Some d \<Rightarrow> strip d
      | None \<Rightarrow> ''No description available'')"

definition extract_category :: "soup \<Rightarrow> py_error + string" where
  "extract_category doc =
     (if length (breadcrumb doc) < 3 then Inl IndexError
      else Inr (strip (breadcrumb doc ! 2)))"

definition extract_upc :: "soup \<Rightarrow> py_error + string" where
  "extract_upc doc =
     (case upc_th doc of
        None \<Rightarrow> Inl AttributeError
      | Some None \<Rightarrow> Inl AttributeError
      | Some (Some t) \<Rightarrow> Inr (strip t))"

definition extract_fields :: "env \<Rightarrow> soup \<Rightarrow> string \<Rightarrow> py_error + book" where
  "extract_fields e doc book_url =
     (case extract_title doc of Inl err \<Rightarrow> Inl err | Inr t \<Rightarrow>
     (case extract_price doc of Inl err \<Rightarrow> Inl err | Inr p \<Rightarrow>
     (case extract_availability e doc of Inl err \<Rightarrow> Inl err | Inr stock \<Rightarrow>
     (case extract_rating doc of Inl err \<Rightarrow> Inl err | Inr r \<Rightarrow>
     (case extract_category doc of Inl err \<Rightarrow> Inl err | Inr c \<Rightarrow>
     (case extract_upc doc of Inl err \<Rightarrow> Inl err | Inr u \<Rightarrow>
        Inr \<lparr>title = t, price = p, rating = r, availability = fst stock,
             stock_count = snd stock, description = extract_description doc,
             category = c, upc = u, b_url = book_url\<rparr>))))))"

text \<open>
  The field \<open>b_url\<close> is the key \<open>'url'\<close> of the dictionary. The result of
  \<open>extract_book_data\<close>, called when the session has made \<open>now\<close> requests: \<open>Inl\<close> is an
  exception leaving the function, \<open>Inr None\<close> is the \<open>return None\<close> after a page that
  answered another status than 200, and \<open>Inr (Some b)\<close> is the returned dictionary.
\<close>

definition extract_book_data :: "env \<Rightarrow> nat \<Rightarrow> string \<Rightarrow> py_error + book option" where
  "extract_book_data e now book_url =
     (case get_soup e now book_url of
        Inl err \<Rightarrow> Inl err
      | Inr None \<Rightarrow> Inr None
      | Inr (Some doc) \<Rightarrow>
          (case extract_fields e doc book_url of
             Inl err \<Rightarrow> Inl err
           | Inr b \<Rightarrow> Inr (Some b)))"

subsection \<open>scrape_category\<close>

text \<open>
  The loop state of \<open>scrape_category\<close>: the two variables of the source; \<open>clock\<close>, the
  number of requests the session has made; and the record of what was asked of the
  session, listing pages and item pages apart, in the order asked, with the item pages for
  which \<open>extract_book_data\<close> returned \<open>None\<close>.
\<close>

record scrape_state =
  books_in_category :: "book list"
  books_count :: nat
  clock :: nat
  page_requests :: "string list"
  item_requests :: "string list"
  failed_items :: "string list"

text \<open>\<open>limit and books_count >= limit\<close>: \<open>None\<close> and \<open>0\<close> are both false in Python.\<close>

definition limit_reached :: "int option \<Rightarrow> nat \<Rightarrow> bool" where
  "limit_reached limit n =
     (case limit of
        None \<Rightarrow> False
      | Some l \<Rightarrow> l \<noteq> 0 \<and> l \<le> int n)"

text \<open>\<open>book.h3.a['href']\<close>, with the exception each missing piece raises.\<close>

fun book_href :: "anchor \<Rightarrow> py_error + string" where
  "book_href NoH3 = Inl AttributeError"
| "book_href NoA = Inl TypeError"
| "book_href NoHref = Inl KeyError"
| "book_href (Href h) = Inr h"

text \<open>The \<open>for book in books\<close> loop of one listing page fetched from \<open>url\<close>.\<close>

fun for_books :: "env \<Rightarrow> string \<Rightarrow> int option \<Rightarrow> anchor list \<Rightarrow> scrape_state
                  \<Rightarrow> py_error + scrape_state" where
  "for_books e url limit [] st = Inr st"
| "for_books e url limit (b # bs) st =
     (if limit_reached limit (books_count st) then Inr st
      else
        (case book_href b of
           Inl err \<Rightarrow> Inl err
         | Inr h \<Rightarrow>
             (let book_url = urljoin e url h;
                  st1 = st\<lparr>clock := clock st + 1, item_requests := item_requests st @ [book_url]\<rparr> in
              case extract_book_data e (clock st) book_url of
                Inl err \<Rightarrow> Inl err
              | Inr None \<Rightarrow>
                  for_books e url limit bs (st1\<lparr>failed_items := failed_items st1 @ [book_url]\<rparr>)
              | Inr (Some book_data) \<Rightarrow>
                  for_books e url limit bs
                    (st1\<lparr>books_in_category := books_in_category st1 @ [book_data],
                         books_count := books_count st1 + 1\<rparr>))))"

text \<open>
  The address of a page, with \<open>str_of_nat\<close> for the page number the f-string formats.
  The interpreter's digit limit, which refuses to format a number of several hundred
  digits and more, is left out here: page \<open>n\<close> is reached only after \<open>n - 1\<close> earlier
  rounds of the loop.
\<close>

definition page_url :: "string \<Rightarrow> nat \<Rightarrow> string" where
  "page_url category_url page_num =
     (if page_num = 1 then category_url
      else str_replace ''index.html'' (''page-'' @ str_of_nat page_num @ ''.html'') category_url)"

text \<open>
  The \<open>while True\<close> loop. Nothing in it bounds the number of rounds, so the model counts
  them down: \<open>None\<close> says the rounds allowed were not enough, \<open>Some (Inl err)\<close> that an
  exception left the loop, and \<open>Some (Inr st)\<close> that the loop was left by a \<open>break\<close>.
\<close>

fun scrape_pages :: "nat \<Rightarrow> env \<Rightarrow> string \<Rightarrow> int option \<Rightarrow> nat \<Rightarrow> scrape_state
                     \<Rightarrow> (py_error + scrape_state) option" where
  "scrape_pages 0 e category_url limit page_num st = None"
| "scrape_pages (Suc fuel) e category_url limit page_num st =
     (let url = page_url category_url page_num;
          st1 = st\<lparr>clock := clock st + 1, page_requests := page_requests st @ [url]\<rparr> in
      case get_soup e (clock st) url of
        Inl err \<Rightarrow> Some (Inl err)
      | Inr None \<Rightarrow> Some (Inr st1)
      | Inr (Some doc) \<Rightarrow>
          if product_pods doc = [] then Some (Inr st1)
          else
            (case for_books e url limit (product_pods doc) st1 of
               Inl err \<Rightarrow> Some (Inl err)
             | Inr st2 \<Rightarrow>
                 if limit_reached limit (books_count st2) then Some (Inr st2)
                 else if \<not> next_button doc then Some (Inr st2)
                 else scrape_pages fuel e category_url limit (page_num + 1) st2))"

definition init_state :: "nat \<Rightarrow> scrape_state" where
  "init_state now =
     \<lparr>books_in_category = [], books_count = 0, clock = now, page_requests = [],
      item_requests = [], failed_items = []\<rparr>"

text \<open>
  \<open>scrape_category\<close>, called when the session has made \<open>now\<close> requests, returns the
  \<open>books_in_category\<close> of the final state; the model hands the whole state back, so that
  the requests made can be read off it.
\<close>

definition scrape_category :: "nat \<Rightarrow> env \<Rightarrow> nat \<Rightarrow> string \<Rightarrow> int option
                               \<Rightarrow> (py_error + scrape_state) option" where
  "scrape_category fuel e now category_url limit =
     scrape_pages fuel e category_url limit 1 (init_state now)"

subsection \<open>scrape_all_categories and the test path of the main program\<close>

text \<open>The first loop: \<open>category['href']\<close>, made absolute unless it starts with \<open>http\<close>.\<close>

fun category_links_of :: "string \<Rightarrow> string option list \<Rightarrow> py_error + string list" where
  "category_links_of base [] = Inr []"
| "category_links_of base (None # cs) = Inl KeyError"
| "category_links_of base (Some h # cs) =
     (case category_links_of base cs of
        Inl err \<Rightarrow> Inl err
      | Inr links \<Rightarrow> Inr ((if prefix ''http'' h then h else base @ h) # links))"

text \<open>The second loop: every category is scraped and its books go to \<open>books_data\<close>.\<close>

fun for_categories :: "nat \<Rightarrow> env \<Rightarrow> int option \<Rightarrow> string list \<Rightarrow> nat \<Rightarrow> book list
                       \<Rightarrow> (py_error + book list) option" where
  "for_categories fuel e limit [] now books_data = Some (Inr books_data)"
| "for_categories fuel e limit (category_url # cs) now books_data =
     (case scrape_category fuel e now category_url limit of
        None \<Rightarrow> None
      | Some (Inl err) \<Rightarrow> Some (Inl err)
      | Some (Inr st) \<Rightarrow>
          for_categories fuel e limit cs (clock st) (books_data @ books_in_category st))"

text \<open>
  \<open>scrape_all_categories\<close>, called when the session has made \<open>now\<close> requests and
  \<open>self.books_data\<close> is \<open>books_data\<close>; the result is \<open>self.books_data\<close> afterwards.
\<close>

definition scrape_all_categories :: "nat \<Rightarrow> env \<Rightarrow> nat \<Rightarrow> int \<Rightarrow> book list
                                     \<Rightarrow> (py_error + book list) option" where
  "scrape_all_categories fuel e now books_per_category books_data =
     (case get_soup e now base_url of
        Inl err \<Rightarrow> Some (Inl err)
      | Inr None \<Rightarrow> Some (Inr books_data)
      | Inr (Some doc) \<Rightarrow>
          (case category_links_of base_url (side_categories doc) of
             Inl err \<Rightarrow> Some (Inl err)
           | Inr category_links \<Rightarrow>
               for_categories fuel e (Some books_per_category) category_links (now + 1)
                 books_data))"

text \<open>
  The branch of the main program that scrapes the site root with a limit of 20, on a
  scraper just made.
\<close>

definition main_test :: "nat \<Rightarrow> env \<Rightarrow> (py_error + book list) option" where
  "main_test fuel e =
     (case scrape_category fuel e 0 base_url (Some 20) of
        None \<Rightarrow> None
      | Some (Inl err) \<Rightarrow> Some (Inl err)
      | Some (Inr st) \<Rightarrow> Some (Inr ([] @ books_in_category st)))"

section \<open>Sample documents and sites\<close>

text \<open>
  An item page as the site serves it, and variants of it with one node taken away. The
  price text begins with the pound sign, code point 163.
\<close>

definition price_p :: p_tag where
  "price_p = \<lparr>p_class = [''price_color''], p_text = CHR 0xA3 # ''51.77''\<rparr>"

definition stock_p :: p_tag where
  "stock_p = \<lparr>p_class = [''instock'', ''availability''], p_text = ''  In stock (16 available)  ''\<rparr>"

definition star_p :: p_tag where
  "star_p = \<lparr>p_class = [''star-rating'', ''Three''], p_text = []\<rparr>"

definition item_doc :: soup where
  "item_doc =
     \<lparr>product_main = Some (Some ''A Light in the Attic''),
      p_tags = [price_p, stock_p, star_p],
      product_description = None,
      breadcrumb = [''Home'', ''Books'', ''Poetry'', ''A Light in the Attic''],
      upc_th = Some (Some ''a897fe39b1053632''),
      product_pods = [], next_button = False, side_categories = []\<rparr>"

text \<open>
  The record \<open>extract_book_data\<close> returns for \<open>item_doc\<close> fetched from \<open>u\<close>. Its price is
  the double nearest to 51.77, which is 7285979772155331 / 2 ^ 47.
\<close>

definition item_book :: "string \<Rightarrow> book" where
  "item_book u =
     \<lparr>title = ''A Light in the Attic'', price = Finite (7285979772155331 / 140737488355328),
      rating = 3, availability = True,
      stock_count = 16, description = ''No description available'', category = ''Poetry'',
      upc = ''a897fe39b1053632'', b_url = u\<rparr>"

definition no_title_doc :: soup where
  "no_title_doc = item_doc\<lparr>product_main := None\<rparr>"

definition no_price_doc :: soup where
  "no_price_doc = item_doc\<lparr>p_tags := [stock_p, star_p]\<rparr>"

definition no_availability_doc :: soup where
  "no_availability_doc = item_doc\<lparr>p_tags := [price_p, star_p]\<rparr>"

definition odd_rating_doc :: soup where
  "odd_rating_doc =
     item_doc\<lparr>p_tags := [price_p, stock_p, \<lparr>p_class = [''star-rating'', ''Six''], p_text = []\<rparr>]\<rparr>"

definition out_of_stock_p :: p_tag where
  "out_of_stock_p = \<lparr>p_class = [''instock'', ''availability''], p_text = ''Out of stock''\<rparr>"

definition out_of_stock_doc :: soup where
  "out_of_stock_doc = item_doc\<lparr>p_tags := [price_p, out_of_stock_p, star_p]\<rparr>"

text \<open>
  An item page whose availability node does not carry the class \<open>instock\<close>, and one with
  two availability nodes, of which only the second has the class attribute
  \<open>instock availability\<close>.
\<close>

definition sold_out_p :: p_tag where
  "sold_out_p = \<lparr>p_class = [''outofstock'', ''availability''], p_text = ''Out of stock''\<rparr>"

definition sold_out_doc :: soup where
  "sold_out_doc = item_doc\<lparr>p_tags := [price_p, sold_out_p, star_p]\<rparr>"

definition plain_stock_p :: p_tag where
  "plain_stock_p = \<lparr>p_class = [''availability''], p_text = ''In stock (16 available)''\<rparr>"

definition other_stock_p :: p_tag where
  "other_stock_p = \<lparr>p_class = [''instock'', ''availability''], p_text = ''In stock (3 available)''\<rparr>"

definition two_stock_doc :: soup where
  "two_stock_doc = item_doc\<lparr>p_tags := [price_p, plain_stock_p, other_stock_p, star_p]\<rparr>"

text \<open>An item page whose stock text counts with a number of 4301 digits.\<close>

definition long_digits :: string where
  "long_digits = replicate 4301 CHR ''1''"



text \<open>An item page whose price has seventeen digits, and one whose price is 51.5.\<close>

definition big_price_p :: p_tag where
  "big_price_p = \<lparr>p_class = [''price_color''], p_text = CHR 0xA3 # ''9007199254740993.0''\<rparr>"

definition big_price_doc :: soup where
  "big_price_doc = item_doc\<lparr>p_tags := [big_price_p, stock_p, star_p]\<rparr>"

definition half_price_p :: p_tag where
  "half_price_p = \<lparr>p_class = [''price_color''], p_text = CHR 0xA3 # ''51.5''\<rparr>"

definition half_price_doc :: soup where
  "half_price_doc = item_doc\<lparr>p_tags := [half_price_p, stock_p, star_p]\<rparr>"

text \<open>A listing page with the given books and next-page link, and the two kinds of answer.\<close>

definition listing :: "anchor list \<Rightarrow> bool \<Rightarrow> soup" where
  "listing pods nxt =
     \<lparr>product_main = None, p_tags = [], product_description = None, breadcrumb = [],
      upc_th = None, product_pods = pods, next_button = nxt, side_categories = []\<rparr>"

definition ok :: "soup \<Rightarrow> response" where
  "ok doc = \<lparr>status_code = 200, content = doc\<rparr>"

definition not_found :: response where
  "not_found = \<lparr>status_code = 404, content = listing [] False\<rparr>"

text \<open>
  A site given by a table of its pages, which answers the same at all times; every other
  address answers 404. All links of the sample sites are absolute, and \<open>urljoin\<close> returns
  an absolute link as it is. The digit limit is the interpreter's default.
\<close>

definition site_of :: "(string \<times> response) list \<Rightarrow> env" where
  "site_of pages =
     \<lparr>http = (\<lambda>n u. Inr (case map_of pages u of Some r \<Rightarrow> r | None \<Rightarrow> not_found)),
      urljoin = (\<lambda>base h. h), int_max_str_digits = 4300\<rparr>"

text \<open>A site whose only page is an item page without a title.\<close>

definition site_no_title :: env where
  "site_no_title = site_of [(''http://s/a'', ok no_title_doc)]"

text \<open>
  The addresses of the sample sites: a category with its second and third page, and three
  item pages.
\<close>

definition cat1 :: string where "cat1 = ''http://s/cat/index.html''"

definition cat2 :: string where "cat2 = ''http://s/cat/page-2.html''"

definition cat3 :: string where "cat3 = ''http://s/cat/page-3.html''"

definition url_a :: string where "url_a = ''http://s/a''"

definition url_b :: string where "url_b = ''http://s/b''"

definition url_c :: string where "url_c = ''http://s/c''"

text \<open>The root page, whose side bar lists the one category.\<close>

definition root_doc :: soup where
  "root_doc = (listing [] False)\<lparr>side_categories := [Some cat1]\<rparr>"


text \<open>
  The same category with the items in the other order and no page behind \<open>url_b\<close>: its
  fetch answers 404.
\<close>

definition site_one_failing :: env where
  "site_one_failing =
     site_of [(base_url, ok root_doc), (cat1, ok (listing [Href url_b, Href url_a] False)),
              (url_a, ok item_doc)]"

text \<open>A category whose first page has one item and a next-page link, and no second page.\<close>

definition site_page2_fails :: env where
  "site_page2_fails = site_of [(cat1, ok (listing [Href url_a] True)), (url_a, ok item_doc)]"

text \<open>The same category on a site whose second page cannot be reached: the request raises.\<close>

definition site_page2_raises :: env where
  "site_page2_raises =
     \<lparr>http = (\<lambda>n u. if u = cat2 then Inl RequestException else http site_page2_fails n u),
      urljoin = (\<lambda>base h. h), int_max_str_digits = 4300\<rparr>"

text \<open>
  The same category reached from the root page, the second page again raising.
\<close>

definition site_root_page2_raises :: env where
  "site_root_page2_raises =
     \<lparr>http = (\<lambda>n u. if u = cat2 then Inl RequestException
                    else if u = base_url then Inr (ok root_doc)
                    else http site_page2_fails n u),
      urljoin = (\<lambda>base h. h), int_max_str_digits = 4300\<rparr>"

text \<open>
  A site whose root lists one item and a next-page link, and answers the first request
  only: every later request for the root gets a 404.
\<close>

definition site_root_once :: env where
  "site_root_once =
     \<lparr>http = (\<lambda>n u. Inr (if u = base_url \<and> n = 0 then ok (listing [Href url_a] True)
                         else if u = url_a then ok item_doc else not_found)),
      urljoin = (\<lambda>base h. h), int_max_str_digits = 4300\<rparr>"

text \<open>
  A category whose page lists three items and a next-page link; the first item has no page.
\<close>

definition site_three_items :: env where
  "site_three_items =
     site_of [(cat1, ok (listing [Href url_b, Href url_a, Href url_c] True)),
              (url_a, ok item_doc), (url_c, ok item_doc)]"

text \<open>
  A category of three pages with twenty items each; every address that is not one of the
  three listing pages answers with the item page.
\<close>

definition page_items :: "nat \<Rightarrow> string list" where
  "page_items p = map (\<lambda>i. ''http://s/book-'' @ str_of_nat p @ ''-'' @ str_of_nat i) [1..<21]"

definition site_3x20 :: env where
  "site_3x20 =
     \<lparr>http = (\<lambda>n u. Inr (if u = cat1 then ok (listing (map Href (page_items 1)) True)
                         else if u = cat2 then ok (listing (map Href (page_items 2)) True)
                         else if u = cat3 then ok (listing (map Href (page_items 3)) False)
                         else ok item_doc)),
      urljoin = (\<lambda>base h. h), int_max_str_digits = 4300\<rparr>"

text \<open>
  A site whose root page lists ten items and a next-page link, as the root of the shop
  does; every other address answers with the item page.
\<close>

definition root_items :: "string list" where
  "root_items = take 10 (page_items 1)"

definition site_root :: env where
  "site_root =
     \<lparr>http = (\<lambda>n u. Inr (if u = base_url then ok (listing (map Href root_items) True)
                         else ok item_doc)),
      urljoin = (\<lambda>base h. h), int_max_str_digits = 4300\<rparr>"


section \<open>Facts about the string functions\<close>

lemma takeWhile_digits_app:
  "list_all is_digit ip \<Longrightarrow> \<not> is_digit c \<Longrightarrow> takeWhile is_digit (ip @ c # r) = ip"
  by (induction ip) auto

lemma dropWhile_digits_app:
  "list_all is_digit ip \<Longrightarrow> \<not> is_digit c \<Longrightarrow> dropWhile is_digit (ip @ c # r) = c # r"
  by (induction ip) auto

lemma dot_not_digit: "\<not> is_digit CHR ''.''"
  by (simp add: is_digit_def)


lemma py_float_decimal:
  assumes "list_all is_digit ip" and "list_all is_digit fp" and "ip \<noteq> []"
  shows "py_float (ip @ CHR ''.'' # fp) = Inr (binary64 (decimal_value ip fp))"
  using assms by (simp add: py_float_def takeWhile_digits_app dropWhile_digits_app dot_not_digit)

lemma py_int_short: "length ds \<le> 640 \<Longrightarrow> py_int m ds = Inr (int (nat_of_digits ds))"
  by (simp add: py_int_def)

section \<open>Facts about the doubles\<close>

lemma ilog2_bounds: "2 ^ k \<le> n \<Longrightarrow> n < 2 ^ Suc k \<Longrightarrow> ilog2 n = int k"
proof (induction k arbitrary: n)
  case 0
  then show ?case by (simp add: ilog2.simps)
next
  case (Suc k)
  have "2 ^ k \<le> n div 2" using Suc.prems(1) by simp
  moreover have "n div 2 < 2 ^ Suc k" using Suc.prems(2) by simp
  ultimately have "ilog2 (n div 2) = int k" by (rule Suc.IH)
  moreover have "\<not> n < 2"
  proof -
    have "(2::int) \<le> 2 ^ Suc k" by simp
    then show ?thesis using Suc.prems(1) by linarith
  qed
  ultimately show ?case by (subst ilog2.simps) simp
qed

lemma binary_exponent_normal:
  assumes "2 ^ k \<le> x" and "x < 2 ^ Suc k"
  shows "binary_exponent x = int k"
proof -
  have 1: "(2::int) ^ (k + 1074) \<le> \<lfloor>x * 2 ^ 1074\<rfloor>"
  proof -
    have "of_int ((2::int) ^ (k + 1074)) = (2::rat) ^ k * 2 ^ 1074"
      by (simp add: power_add)
    also have "\<dots> \<le> x * 2 ^ 1074"
      using assms(1) by (intro mult_right_mono) simp_all
    finally show ?thesis by (simp only: le_floor_iff)
  qed
  have 2: "\<lfloor>x * 2 ^ 1074\<rfloor> < (2::int) ^ Suc (k + 1074)"
  proof -
    have "x * 2 ^ 1074 < (2::rat) ^ Suc k * 2 ^ 1074"
      using assms(2) by (intro mult_strict_right_mono) simp_all
    also have "\<dots> = of_int ((2::int) ^ Suc (k + 1074))"
      by (simp add: power_add)
    finally show ?thesis by (simp only: floor_less_iff)
  qed
  have "ilog2 \<lfloor>x * 2 ^ 1074\<rfloor> = int (k + 1074)"
    using 1 2 by (rule ilog2_bounds)
  then show ?thesis
    unfolding binary_exponent_def by simp
qed

lemma round_half_even_near:
  assumes "of_int n - 1 / 2 < x" and "x < of_int n + 1 / 2"
  shows "round_half_even x = n"
proof (cases "of_int n \<le> x")
  case True
  then have f: "\<lfloor>x\<rfloor> = n" using assms(2) by (simp add: floor_eq_iff)
  show ?thesis using assms(2) by (simp add: round_half_even_def f Let_def)
next
  case False
  then have f: "\<lfloor>x\<rfloor> = n - 1" using assms(1) by (simp add: floor_eq_iff)
  show ?thesis using assms(1) False by (simp add: round_half_even_def f Let_def)
qed


text \<open>
  Between \<open>2 ^ k\<close> and \<open>2 ^ (k + 1)\<close> the doubles are the multiples of \<open>2 ^ k / 2 ^ 52\<close>.
\<close>

lemma binary64_normal:
  assumes "2 ^ k \<le> x" and "x < 2 ^ Suc k" and "round_half_even (x * 2 ^ 52 / 2 ^ k) = n"
  shows "binary64 x =
           (if (2::rat) ^ 1024 \<le> of_int n * 2 ^ k / 2 ^ 52 then Infinity
            else Finite (of_int n * 2 ^ k / 2 ^ 52))"
proof -
  have e: "binary_exponent x = int k"
    using assms(1,2) by (rule binary_exponent_normal)
  have u: "(2::rat) powi (int k - 52) = 2 ^ k / 2 ^ 52"
    by (simp add: power_int_diff)
  have q: "x / (2 ^ k / 2 ^ 52) = x * 2 ^ 52 / 2 ^ k"
    by simp
  show ?thesis
    unfolding binary64_def Let_def e u q assms(3) by simp
qed

text \<open>The double nearest to 51.77, and the one nearest to \<open>2 ^ 53 + 1\<close>, which is a tie.\<close>

lemma binary64_5177: "binary64 (5177 / 100) = Finite (7285979772155331 / 140737488355328)"
proof -
  have r: "round_half_even (5177 / 100 * 2 ^ 52 / 2 ^ 5) = 7285979772155331"
    by (rule round_half_even_near) simp_all
  show ?thesis
    by (subst binary64_normal [where k = 5, OF _ _ r]) simp_all
qed


lemma decimal_5177: "decimal_value ''51'' ''77'' = 5177 / 100"
  by (simp add: decimal_value_def nat_of_digits_def digit_val_def)

lemma strip_pound: "strip (CHR 0xA3 # ''51.77'') = CHR 0xA3 # ''51.77''"
  by (simp add: strip_def is_space_def)

section \<open>The sample documents\<close>

lemmas sample_defs = item_doc_def price_p_def stock_p_def star_p_def out_of_stock_p_def
  no_title_doc_def no_price_doc_def no_availability_doc_def odd_rating_doc_def out_of_stock_doc_def
  sold_out_p_def sold_out_doc_def plain_stock_p_def other_stock_p_def two_stock_doc_def
  big_price_p_def big_price_doc_def half_price_p_def half_price_doc_def

lemma find_price_item: "find_p ''price_color'' item_doc = Some price_p"
  by (simp add: find_p_def class_matches_def sample_defs)

lemma find_availability_item: "find_p ''availability'' item_doc = Some stock_p"
  by (simp add: find_p_def class_matches_def sample_defs)

lemma find_instock_item: "find_p ''instock availability'' item_doc = Some stock_p"
  by (simp add: find_p_def class_matches_def sample_defs)

lemma find_star_item: "find_p ''star-rating'' item_doc = Some star_p"
  by (simp add: find_p_def class_matches_def sample_defs)

lemma strip_stock: "strip (p_text stock_p) = ''In stock (16 available)''"
  by (simp add: strip_def is_space_def stock_p_def)

lemma search_16: "re_search_available ''In stock (16 available)'' = Some ''16''"
  by (simp add: is_digit_def)

lemma extract_title_item: "extract_title item_doc = Inr ''A Light in the Attic''"
  by (simp add: extract_title_def item_doc_def strip_def is_space_def)

lemma py_float_5177: "py_float ''51.77'' = Inr (Finite (7285979772155331 / 140737488355328))"
proof -
  have d: "list_all is_digit ''51''" "list_all is_digit ''77''"
    by (simp_all add: is_digit_def)
  show ?thesis
    using py_float_decimal [OF d] by (simp add: decimal_5177 binary64_5177)
qed

lemma extract_price_item: "extract_price item_doc = Inr (Finite (7285979772155331 / 140737488355328))"
  by (simp add: extract_price_def find_price_item price_p_def strip_pound re_sub_non_numeric_def
      is_digit_def py_float_5177)

lemma stock_count_16: "stock_count_of e ''In stock (16 available)'' = Inr 16"
  by (simp add: stock_count_of_def search_16 py_int_short nat_of_digits_def digit_val_def
      is_digit_def)

lemma extract_availability_item: "extract_availability e item_doc = Inr (True, 16)"
  by (simp add: extract_availability_def find_availability_item find_instock_item strip_stock
      stock_count_16)

lemma lower_three: "lower ''Three'' = ''three''"
  by code_simp

lemma extract_rating_item: "extract_rating item_doc = Inr 3"
  by (simp add: extract_rating_def find_star_item star_p_def lower_three rating_map_def)

lemma extract_category_item: "extract_category item_doc = Inr ''Poetry''"
  by (simp add: extract_category_def item_doc_def strip_def is_space_def)

lemma extract_upc_item: "extract_upc item_doc = Inr ''a897fe39b1053632''"
  by (simp add: extract_upc_def item_doc_def strip_def is_space_def)

lemma extract_description_item: "extract_description item_doc = ''No description available''"
  by (simp add: extract_description_def item_doc_def)

lemma extract_fields_item: "extract_fields e item_doc u = Inr (item_book u)"
  by (simp add: extract_fields_def extract_title_item extract_price_item extract_availability_item
      extract_rating_item extract_category_item extract_upc_item extract_description_item item_book_def)

lemma lower_six: "lower ''Six'' = ''six''"
  by code_simp

section \<open>Facts about the extraction of a field\<close>















lemma re_search_count:
  assumes "ds \<noteq> []" and "list_all is_digit ds"
  shows "re_search_available (ds @ '' available'') = Some ds"
proof -
  obtain d ds' where ds: "ds = d # ds'"
    using assms(1) by (cases ds) auto
  have s: "\<not> is_digit CHR '' ''"
    by (simp add: is_digit_def)
  have t: "takeWhile is_digit (ds @ CHR '' '' # ''available'') = ds"
    using assms(2) s by (rule takeWhile_digits_app)
  have r: "dropWhile is_digit (ds @ CHR '' '' # ''available'') = CHR '' '' # ''available''"
    using assms(2) s by (rule dropWhile_digits_app)
  have "is_digit d" using assms(2) ds by simp
  then show ?thesis
    using t r by (simp add: ds)
qed

lemma long_digits_facts:
  "long_digits \<noteq> []" "list_all is_digit long_digits" "length long_digits = 4301"
  by (simp_all add: long_digits_def list_all_iff is_digit_def)

lemma stock_count_long: "stock_count_of (site_of []) (long_digits @ '' available'') = Inl ValueError"
  by (simp add: stock_count_of_def re_search_count long_digits_facts py_int_def site_of_def)


section \<open>Field extraction\<close>




text \<open>
  C2, as the code has it. An item document without a title node (no \<open>div.product_main\<close>,
  or one without an \<open>h1\<close>) makes \<open>extract_book_data\<close> raise \<open>AttributeError\<close>: the
  exception leaves the function, nothing is returned, and so no record, partial or
  whole, comes out. More generally, whatever exception the reading of a fetched document
  raises leaves \<open>extract_book_data\<close> as that exception.
\<close>

theorem missing_title_raises:
  "(product_main doc = None \<or> product_main doc = Some None \<longrightarrow>
      extract_title doc = Inl AttributeError
      \<and> extract_fields e doc book_url = Inl AttributeError
      \<and> (get_soup e now book_url = Inr (Some doc) \<longrightarrow>
           extract_book_data e now book_url = Inl AttributeError))
   \<and> (get_soup e now book_url = Inr (Some doc) \<and> extract_fields e doc book_url = Inl err \<longrightarrow>
      extract_book_data e now book_url = Inl err)"
  by (auto simp: extract_title_def extract_fields_def extract_book_data_def)

text \<open>
  C2 as stated fails: on \<open>no_title_doc\<close> the outcome is a raised \<open>AttributeError\<close>, not a
  returned failure value.
\<close>

theorem missing_title_counterexample:
  "product_main no_title_doc = None
   \<and> extract_fields site_no_title no_title_doc ''http://s/a'' = Inl AttributeError
   \<and> extract_book_data site_no_title 0 ''http://s/a'' = Inl AttributeError"
  by (simp add: no_title_doc_def extract_fields_def extract_title_def extract_book_data_def
      get_soup_def site_no_title_def site_of_def ok_def)

theorem missing_title_raises_witness:
  "product_main no_title_doc = None
   \<and> get_soup site_no_title 0 ''http://s/a'' = Inr (Some no_title_doc)
   \<and> extract_book_data site_no_title 0 ''http://s/a'' = Inl AttributeError"
proof -
  have 1: "product_main no_title_doc = None" by (simp add: no_title_doc_def)
  have 2: "get_soup site_no_title 0 ''http://s/a'' = Inr (Some no_title_doc)"
    by (simp add: get_soup_def site_no_title_def site_of_def ok_def)
  show ?thesis
    using missing_title_raises [of no_title_doc site_no_title "''http://s/a''" 0] 1 2 by simp
qed

text \<open>
  C3, as the code has it. A rating word that is none of one to five (in any case) gives the
  rating 0, and an absent description gives the text \<open>No description available\<close>, neither
  raising. An absent availability node, or an absent \<open>instock availability\<close> node, is not
  defaulted: the extraction raises \<open>AttributeError\<close>, also when title and price were read.
\<close>

theorem soft_defaults:
  "(find_p ''star-rating'' doc = Some p \<and> 2 \<le> length (p_class p)
      \<and> lower (p_class p ! 1) \<notin> set [''one'', ''two'', ''three'', ''four'', ''five'']
      \<longrightarrow> extract_rating doc = Inr 0)
   \<and> (product_description doc = None \<longrightarrow> extract_description doc = ''No description available'')
   \<and> (find_p ''availability'' doc = None \<or> find_p ''instock availability'' doc = None
      \<longrightarrow> extract_availability e doc = Inl AttributeError)
   \<and> (extract_title doc = Inr t \<and> extract_price doc = Inr pr
      \<and> (find_p ''availability'' doc = None \<or> find_p ''instock availability'' doc = None)
      \<longrightarrow> extract_fields e doc book_url = Inl AttributeError)"
proof -
  have r: "extract_rating doc = Inr 0"
    if "find_p ''star-rating'' doc = Some p" "2 \<le> length (p_class p)"
       "lower (p_class p ! 1) \<notin> set [''one'', ''two'', ''three'', ''four'', ''five'']"
  proof -
    have "map_of rating_map (lower (p_class p ! 1)) = None"
      using that(3) by (simp add: rating_map_def)
    then show ?thesis using that(1,2) by (simp add: extract_rating_def)
  qed
  have d: "extract_description doc = ''No description available''" if "product_description doc = None"
    using that by (simp add: extract_description_def)
  have a: "extract_availability e doc = Inl AttributeError"
    if "find_p ''availability'' doc = None \<or> find_p ''instock availability'' doc = None"
    using that by (auto simp: extract_availability_def split: option.splits)
  have f: "extract_fields e doc book_url = Inl AttributeError"
    if "extract_title doc = Inr t" "extract_price doc = Inr pr"
       "find_p ''availability'' doc = None \<or> find_p ''instock availability'' doc = None"
    using that(1,2) a [OF that(3)] by (simp add: extract_fields_def)
  show ?thesis using r d a f by blast
qed

text \<open>
  C3 as stated fails: \<open>no_availability_doc\<close> has no availability node, and its extraction
  raises instead of giving an out-of-stock record.
\<close>

theorem missing_availability_counterexample:
  "find_p ''availability'' no_availability_doc = None
   \<and> extract_fields (site_of []) no_availability_doc ''http://s/a'' = Inl AttributeError"
proof -
  have 1: "find_p ''availability'' no_availability_doc = None"
    by (simp add: find_p_def class_matches_def sample_defs)
  have 2: "extract_title no_availability_doc = Inr ''A Light in the Attic''"
    by (simp add: extract_title_def sample_defs strip_def is_space_def)
  have 3: "extract_price no_availability_doc = Inr (Finite (7285979772155331 / 140737488355328))"
    by (simp add: extract_price_def find_p_def class_matches_def sample_defs strip_pound
        re_sub_non_numeric_def is_digit_def py_float_5177)
  have 4: "extract_availability (site_of []) no_availability_doc = Inl AttributeError"
    by (simp add: extract_availability_def 1)
  show ?thesis by (simp add: 1 2 3 4 extract_fields_def)
qed

theorem soft_defaults_witness:
  "extract_rating odd_rating_doc = Inr 0
   \<and> extract_description odd_rating_doc = ''No description available''
   \<and> extract_availability (site_of []) no_availability_doc = Inl AttributeError"
proof -
  have 1: "find_p ''star-rating'' odd_rating_doc = Some \<lparr>p_class = [''star-rating'', ''Six''], p_text = []\<rparr>"
    by (simp add: find_p_def class_matches_def sample_defs)
  have 2: "lower (p_class \<lparr>p_class = [''star-rating'', ''Six''], p_text = []\<rparr> ! 1)
             \<notin> set [''one'', ''two'', ''three'', ''four'', ''five'']"
    by (simp add: lower_six)
  have 3: "product_description odd_rating_doc = None"
    by (simp add: sample_defs)
  have 4: "find_p ''availability'' no_availability_doc = None"
    by (simp add: find_p_def class_matches_def sample_defs)
  show ?thesis
    using soft_defaults [of odd_rating_doc "\<lparr>p_class = [''star-rating'', ''Six''], p_text = []\<rparr>" "site_of []" t pr u]
      soft_defaults [of no_availability_doc p "site_of []" t pr u] 1 2 3 4
    by simp
qed




section \<open>Facts about the sample sites\<close>

lemmas url_defs = cat1_def cat2_def cat3_def url_a_def url_b_def url_c_def base_url_def

lemma get_soup_site:
  "get_soup (site_of pages) n u =
     Inr (case map_of pages u of
            None \<Rightarrow> None
          | Some r \<Rightarrow> if status_code r = 200 then Some (content r) else None)"
  by (simp add: get_soup_def site_of_def not_found_def split: option.splits)

lemma urljoin_site: "urljoin (site_of pages) b h = h"
  by (simp add: site_of_def)

lemma extract_book_data_item:
  "get_soup e n u = Inr (Some item_doc) \<Longrightarrow> extract_book_data e n u = Inr (Some (item_book u))"
  by (simp add: extract_book_data_def extract_fields_item)


lemma http_cat1: "prefix ''http'' cat1"
  by (simp add: cat1_def)

lemma page_url_1: "page_url c (Suc 0) = c"
  by (simp add: page_url_def)

lemma page_url_cat1_2: "page_url cat1 2 = cat2"
  by (simp add: page_url_def cat1_def cat2_def str_of_nat.simps digit_char_def)

section \<open>Facts about the loops\<close>

text \<open>
  More rounds never change a result: once the loop has returned, it has returned for good.
\<close>

lemma scrape_pages_fuel_mono:
  "scrape_pages fuel e c limit n st = Some r \<Longrightarrow> scrape_pages (fuel + k) e c limit n st = Some r"
  by (induction fuel arbitrary: n st)
     (auto simp: Let_def split: option.splits sum.splits if_splits)

text \<open>
  An item yields nothing exactly when its page answered another status than 200.
\<close>

lemma extract_none_iff: "extract_book_data e n u = Inr None \<longleftrightarrow> get_soup e n u = Inr None"
  by (auto simp: extract_book_data_def split: option.splits sum.splits)


text \<open>
  Once the limit is reached the item loop does nothing more.
\<close>

lemma for_books_stop: "limit_reached limit (books_count st) \<Longrightarrow> for_books e u limit bs st = Inr st"
  by (cases bs) auto




lemma page_requests_for_books:
  "for_books e u limit bs st = Inr st' \<Longrightarrow> page_requests st' = page_requests st"
  by (induction bs arbitrary: st) (auto split: if_splits sum.splits option.splits simp: Let_def)

text \<open>
  Every item request either adds a book or is a failed fetch, and \<open>books_count\<close> moves
  with the list of books.
\<close>

lemma for_books_tally:
  assumes "for_books e u limit bs st = Inr st'"
    and "length (item_requests st) = length (books_in_category st) + length (failed_items st)"
    and "books_count st = length (books_in_category st)"
  shows "length (item_requests st') = length (books_in_category st') + length (failed_items st')
       \<and> books_count st' = length (books_in_category st')"
  using assms
proof (induction bs arbitrary: st)
  case Nil
  then show ?case by simp
next
  case (Cons b bs)
  show ?case
  proof (cases "limit_reached limit (books_count st)")
    case True
    with Cons.prems show ?thesis by simp
  next
    case False
    then obtain h where h: "book_href b = Inr h"
      using Cons.prems(1) by (auto split: sum.splits)
    define bu where "bu = urljoin e u h"
    define st1 where "st1 = st\<lparr>clock := clock st + 1, item_requests := item_requests st @ [bu]\<rparr>"
    show ?thesis
    proof (cases "extract_book_data e (clock st) bu")
      case (Inl err)
      with Cons.prems(1) False h show ?thesis by (simp add: bu_def)
    next
      case (Inr d)
      show ?thesis
      proof (cases d)
        case None
        have "for_books e u limit bs (st1\<lparr>failed_items := failed_items st1 @ [bu]\<rparr>) = Inr st'"
          using Cons.prems(1) False h Inr None by (simp add: bu_def st1_def Let_def)
        from Cons.IH [OF this] show ?thesis
          using Cons.prems(2,3) by (simp add: st1_def)
      next
        case (Some book_data)
        have "for_books e u limit bs
                (st1\<lparr>books_in_category := books_in_category st1 @ [book_data],
                     books_count := books_count st1 + 1\<rparr>) = Inr st'"
          using Cons.prems(1) False h Inr Some by (simp add: bu_def st1_def Let_def)
        from Cons.IH [OF this] show ?thesis
          using Cons.prems(2,3) by (simp add: st1_def)
      qed
    qed
  qed
qed

lemma scrape_pages_tally:
  assumes "scrape_pages fuel e c limit n st = Some (Inr st')"
    and "length (item_requests st) = length (books_in_category st) + length (failed_items st)"
    and "books_count st = length (books_in_category st)"
  shows "length (item_requests st') = length (books_in_category st') + length (failed_items st')
       \<and> books_count st' = length (books_in_category st')"
  using assms
proof (induction fuel arbitrary: n st)
  case 0
  then show ?case by simp
next
  case (Suc fuel)
  define st1 where "st1 = st\<lparr>clock := clock st + 1, page_requests := page_requests st @ [page_url c n]\<rparr>"
  have i1: "length (item_requests st1) = length (books_in_category st1) + length (failed_items st1)"
       "books_count st1 = length (books_in_category st1)"
    using Suc.prems(2,3) by (simp_all add: st1_def)
  show ?case
  proof (cases "get_soup e (clock st) (page_url c n)")
    case (Inl err)
    with Suc.prems(1) show ?thesis by simp
  next
    case (Inr got)
    show ?thesis
    proof (cases got)
      case None
      with Suc.prems(1) Inr have "st' = st1" by (simp add: st1_def)
      then show ?thesis using i1 by simp
    next
      case (Some doc)
      show ?thesis
      proof (cases "product_pods doc = []")
        case True
        with Suc.prems(1) Inr Some have "st' = st1" by (simp add: st1_def)
        then show ?thesis using i1 by simp
      next
        case False
        then obtain st2 where fb: "for_books e (page_url c n) limit (product_pods doc) st1 = Inr st2"
          using Suc.prems(1) Inr Some by (auto simp: st1_def Let_def split: sum.splits)
        note t2 = for_books_tally [OF fb i1]
        show ?thesis
        proof (cases "limit_reached limit (books_count st2) \<or> \<not> next_button doc")
          case True
          with Suc.prems(1) Inr Some False fb have "st' = st2"
            by (auto simp: st1_def Let_def split: if_splits)
          then show ?thesis using t2 by simp
        next
          case stop: False
          with Suc.prems(1) Inr Some False fb
          have "scrape_pages fuel e c limit (n + 1) st2 = Some (Inr st')"
            by (auto simp: st1_def Let_def split: if_splits)
          from Suc.IH [OF this] show ?thesis using t2 by simp
        qed
      qed
    qed
  qed
qed

text \<open>
  Under a positive limit the count never passes the limit.
\<close>

lemma for_books_bound:
  "0 < L \<Longrightarrow> for_books e u (Some L) bs st = Inr st' \<Longrightarrow> int (books_count st) \<le> L
   \<Longrightarrow> int (books_count st') \<le> L"
proof (induction bs arbitrary: st)
  case Nil
  then show ?case by simp
next
  case (Cons b bs)
  show ?case
  proof (cases "limit_reached (Some L) (books_count st)")
    case True
    with Cons.prems show ?thesis by simp
  next
    case False
    then have lt: "int (books_count st) < L"
      using Cons.prems(1) by (simp add: limit_reached_def)
    obtain h where h: "book_href b = Inr h"
      using Cons.prems(2) False by (auto split: sum.splits)
    define bu where "bu = urljoin e u h"
    define st1 where "st1 = st\<lparr>clock := clock st + 1, item_requests := item_requests st @ [bu]\<rparr>"
    show ?thesis
    proof (cases "extract_book_data e (clock st) bu")
      case (Inl err)
      with Cons.prems(2) False h show ?thesis by (simp add: bu_def)
    next
      case (Inr d)
      show ?thesis
      proof (cases d)
        case None
        have r: "for_books e u (Some L) bs (st1\<lparr>failed_items := failed_items st1 @ [bu]\<rparr>) = Inr st'"
          using Cons.prems(2) False h Inr None by (simp add: st1_def bu_def Let_def)
        have "int (books_count (st1\<lparr>failed_items := failed_items st1 @ [bu]\<rparr>)) \<le> L"
          using Cons.prems(3) by (simp add: st1_def)
        from Cons.IH [OF Cons.prems(1) r this] show ?thesis .
      next
        case (Some book_data)
        define st2 where
          "st2 = st1\<lparr>books_in_category := books_in_category st1 @ [book_data],
                       books_count := books_count st1 + 1\<rparr>"
        have r: "for_books e u (Some L) bs st2 = Inr st'"
          using Cons.prems(2) False h Inr Some by (simp add: st1_def st2_def bu_def Let_def)
        have "int (books_count st2) \<le> L"
          using lt by (simp add: st1_def st2_def)
        from Cons.IH [OF Cons.prems(1) r this] show ?thesis .
      qed
    qed
  qed
qed

lemma scrape_pages_bound:
  "0 < L \<Longrightarrow> scrape_pages fuel e c (Some L) n st = Some (Inr st') \<Longrightarrow> int (books_count st) \<le> L
   \<Longrightarrow> int (books_count st') \<le> L"
proof (induction fuel arbitrary: n st)
  case 0
  then show ?case by simp
next
  case (Suc fuel)
  define st1 where "st1 = st\<lparr>clock := clock st + 1, page_requests := page_requests st @ [page_url c n]\<rparr>"
  have c1: "int (books_count st1) \<le> L" using Suc.prems(3) by (simp add: st1_def)
  show ?case
  proof (cases "get_soup e (clock st) (page_url c n)")
    case (Inl err)
    with Suc.prems(2) show ?thesis by simp
  next
    case (Inr got)
    show ?thesis
    proof (cases got)
      case None
      with Suc.prems(2) Inr have "st' = st1" by (simp add: st1_def)
      then show ?thesis using c1 by simp
    next
      case (Some doc)
      show ?thesis
      proof (cases "product_pods doc = []")
        case True
        with Suc.prems(2) Inr Some have "st' = st1" by (simp add: st1_def)
        then show ?thesis using c1 by simp
      next
        case False
        then obtain st2 where fb: "for_books e (page_url c n) (Some L) (product_pods doc) st1 = Inr st2"
          using Suc.prems(2) Inr Some by (auto simp: st1_def Let_def split: sum.splits)
        have c2: "int (books_count st2) \<le> L"
          using for_books_bound [OF Suc.prems(1) fb c1] .
        show ?thesis
        proof (cases "limit_reached (Some L) (books_count st2) \<or> \<not> next_button doc")
          case True
          with Suc.prems(2) Inr Some False fb have "st' = st2"
            by (auto simp: st1_def Let_def split: if_splits)
          then show ?thesis using c2 by simp
        next
          case stop: False
          with Suc.prems(2) Inr Some False fb
          have "scrape_pages fuel e c (Some L) (n + 1) st2 = Some (Inr st')"
            by (auto simp: st1_def Let_def split: if_splits)
          from Suc.IH [OF Suc.prems(1) this c2] show ?thesis .
        qed
      qed
    qed
  qed
qed

text \<open>
  A page all of whose items extract: the loop takes as many as the limit still allows.
\<close>

lemma for_books_all_ok:
  assumes "\<And>h n. h \<in> set hs \<Longrightarrow> extract_book_data e n (urljoin e u h) = Inr (Some (f h))"
    and "0 < L"
  shows "for_books e u (Some L) (map Href hs) st =
           Inr (st\<lparr>clock := clock st + length (take (nat L - books_count st) hs),
                   item_requests := item_requests st @ map (urljoin e u) (take (nat L - books_count st) hs),
                   books_in_category := books_in_category st @ map f (take (nat L - books_count st) hs),
                   books_count := books_count st + length (take (nat L - books_count st) hs)\<rparr>)"
  using assms(1)
proof (induction hs arbitrary: st)
  case Nil
  then show ?case by simp
next
  case (Cons h hs)
  show ?case
  proof (cases "limit_reached (Some L) (books_count st)")
    case True
    then have "nat L - books_count st = 0"
      by (auto simp: limit_reached_def)
    then show ?thesis using True by simp
  next
    case False
    then obtain m where m: "nat L - books_count st = Suc m"
      using assms(2) by (cases "nat L - books_count st") (auto simp: limit_reached_def)
    have e: "extract_book_data e n (urljoin e u h) = Inr (Some (f h))" for n
      using Cons.prems by simp
    have ih: "\<And>st. for_books e u (Some L) (map Href hs) st =
           Inr (st\<lparr>clock := clock st + length (take (nat L - books_count st) hs),
                   item_requests := item_requests st @ map (urljoin e u) (take (nat L - books_count st) hs),
                   books_in_category := books_in_category st @ map f (take (nat L - books_count st) hs),
                   books_count := books_count st + length (take (nat L - books_count st) hs)\<rparr>)"
      using Cons.IH Cons.prems by simp
    have m': "nat L - Suc (books_count st) = m" using m by simp
    show ?thesis
      using False by (simp add: e ih m m' Let_def)
  qed
qed

text \<open>
  Replacing a token that does not occur changes nothing.
\<close>

lemma str_replace_absent:
  "old \<noteq> [] \<Longrightarrow> \<not> str_contains old s \<Longrightarrow> str_replace old new s = s"
  by (induction s) auto

lemma base_url_no_index: "\<not> str_contains ''index.html'' base_url"
  by (simp add: base_url_def)

lemma page_url_absent: "\<not> str_contains ''index.html'' c \<Longrightarrow> page_url c n = c"
  by (simp add: page_url_def str_replace_absent)

text \<open>
  Every round of the loop asks for a listing page: a walk that returns has asked for the
  page it started at, and on an address without the token all its requests went to that
  address.
\<close>

lemma scrape_pages_same_url:
  assumes "\<not> str_contains ''index.html'' category_url"
  shows "scrape_pages fuel e category_url limit n st = Some (Inr st')
         \<Longrightarrow> \<exists>k. page_requests st' = page_requests st @ replicate (Suc k) category_url"
proof (induction fuel arbitrary: n st)
  case 0
  then show ?case by simp
next
  case (Suc fuel)
  have u: "page_url category_url n = category_url"
    using assms by (rule page_url_absent)
  define st1 where "st1 = st\<lparr>clock := clock st + 1, page_requests := page_requests st @ [category_url]\<rparr>"
  have st1: "page_requests st1 = page_requests st @ replicate (Suc 0) category_url"
    by (simp add: st1_def)
  show ?case
  proof (cases "get_soup e (clock st) category_url")
    case (Inl err)
    with Suc.prems show ?thesis by (simp add: u)
  next
    case (Inr got)
    show ?thesis
    proof (cases got)
      case None
      with Suc.prems Inr have "st' = st1" by (simp add: u st1_def)
      then show ?thesis using st1 by blast
    next
      case (Some doc)
      show ?thesis
      proof (cases "product_pods doc = []")
        case True
        with Suc.prems Inr Some have "st' = st1" by (simp add: u st1_def)
        then show ?thesis using st1 by blast
      next
        case False
        then obtain st2 where fb: "for_books e category_url limit (product_pods doc) st1 = Inr st2"
          using Suc.prems Inr Some by (auto simp: u st1_def Let_def split: sum.splits)
        have p2: "page_requests st2 = page_requests st1"
          using fb by (rule page_requests_for_books)
        show ?thesis
        proof (cases "limit_reached limit (books_count st2) \<or> \<not> next_button doc")
          case True
          with Suc.prems Inr Some False fb have "st' = st2"
            by (auto simp: u st1_def Let_def split: if_splits)
          then show ?thesis using p2 st1 by auto
        next
          case stop: False
          with Suc.prems Inr Some False fb
          have "scrape_pages fuel e category_url limit (n + 1) st2 = Some (Inr st')"
            by (auto simp: u st1_def Let_def split: if_splits)
          from Suc.IH [OF this] obtain k
            where "page_requests st' = page_requests st2 @ replicate (Suc k) category_url"
            by blast
          then have "page_requests st' = page_requests st @ replicate (Suc (Suc k)) category_url"
            using p2 st1 by simp
          then show ?thesis by blast
        qed
      qed
    qed
  qed
qed

text \<open>
  A limit of 0 is tested as false everywhere, like no limit.
\<close>

lemma limit_zero: "limit_reached (Some 0) n = limit_reached None n"
  by (simp add: limit_reached_def)

lemma for_books_limit_zero: "for_books e u (Some 0) bs st = for_books e u None bs st"
  by (induction bs arbitrary: st) (auto simp: limit_zero Let_def split: sum.splits option.splits)

lemma scrape_pages_limit_zero:
  "scrape_pages fuel e c (Some 0) n st = scrape_pages fuel e c None n st"
  by (induction fuel arbitrary: n st)
     (auto simp: limit_zero for_books_limit_zero Let_def split: sum.splits option.splits)

text \<open>
  The runs on the sample sites.
\<close>

lemma get_one_failing:
  "get_soup site_one_failing n cat1 = Inr (Some (listing [Href url_b, Href url_a] False))"
  "get_soup site_one_failing n url_a = Inr (Some item_doc)"
  "get_soup site_one_failing n url_b = Inr None"
  "get_soup site_one_failing n base_url = Inr (Some root_doc)"
  "urljoin site_one_failing b h = h"
  by (simp_all add: site_one_failing_def get_soup_site urljoin_site url_defs ok_def)

lemma extract_one_failing:
  "extract_book_data site_one_failing n url_a = Inr (Some (item_book url_a))"
  "extract_book_data site_one_failing n url_b = Inr None"
  by (simp_all add: extract_book_data_item extract_none_iff get_one_failing)

lemma scrape_one_failing:
  assumes "\<not> limit_reached l 0"
  shows "scrape_category (Suc k) site_one_failing now cat1 l =
           Some (Inr \<lparr>books_in_category = [item_book url_a], books_count = 1, clock = now + 3,
                      page_requests = [cat1], item_requests = [url_b, url_a],
                      failed_items = [url_b]\<rparr>)"
  using assms
  by (simp add: scrape_category_def Let_def page_url_1 get_one_failing extract_one_failing
      listing_def init_state_def)


lemma page_items_prefix: "h \<in> set (page_items p) \<Longrightarrow> prefix ''http://s/b'' h"
  by (auto simp: page_items_def)

lemma length_page_items: "length (page_items p) = 20"
  by (simp add: page_items_def)

lemma get_soup_3x20_cat1:
  "get_soup site_3x20 n cat1 = Inr (Some (listing (map Href (page_items 1)) True))"
  by (simp add: get_soup_def site_3x20_def ok_def)

lemma get_soup_3x20_cat2:
  "get_soup site_3x20 n cat2 = Inr (Some (listing (map Href (page_items 2)) True))"
  by (simp add: get_soup_def site_3x20_def ok_def url_defs)

lemma get_soup_3x20_item:
  assumes "h \<in> set (page_items p)"
  shows "get_soup site_3x20 n h = Inr (Some item_doc)"
proof -
  have "prefix ''http://s/b'' h" using assms by (rule page_items_prefix)
  then have "h \<noteq> cat1" "h \<noteq> cat2" "h \<noteq> cat3"
    by (auto simp: url_defs)
  then show ?thesis by (simp add: get_soup_def site_3x20_def ok_def)
qed

lemma extract_3x20_item:
  "h \<in> set (page_items p) \<Longrightarrow> extract_book_data site_3x20 n (urljoin site_3x20 u h) = Inr (Some (item_book h))"
  using extract_book_data_item [OF get_soup_3x20_item] by (simp add: site_3x20_def)

lemma urljoin_3x20: "urljoin site_3x20 u = (\<lambda>h. h)"
  by (simp add: site_3x20_def)

lemma scrape_3x20:
  "scrape_category (Suc (Suc k)) site_3x20 now cat1 (Some 25) =
     Some (Inr \<lparr>books_in_category = map item_book (page_items 1 @ take 5 (page_items 2)),
                books_count = 25, clock = now + 27, page_requests = [cat1, cat2],
                item_requests = page_items 1 @ take 5 (page_items 2), failed_items = []\<rparr>)"
proof -
  have p2: "page_url cat1 (Suc (Suc 0)) = cat2"
    using page_url_cat1_2 by (simp add: numeral_2_eq_2)
  have l1: "listing (map Href (page_items 1)) True \<noteq> listing [] True"
    by (simp add: listing_def page_items_def)
  have n1: "page_items p \<noteq> []" for p
    using length_page_items [of p] by auto
  show ?thesis
    by (simp add: scrape_category_def Let_def page_url_1 p2 get_soup_3x20_cat1 get_soup_3x20_cat2
        listing_def n1 for_books_all_ok [where f = item_book, OF extract_3x20_item]
        init_state_def limit_reached_def length_page_items urljoin_3x20)
qed

lemma one_to_twenty:
  "[Suc 0..<21] = [1, 2, 3, 4, 5, 6, 7, 8, 9, 10, 11, 12, 13, 14, 15, 16, 17, 18, 19, 20 :: nat]"
  by (simp add: upt_conv_Cons)

lemma page_items_distinct: "distinct (page_items 1 @ page_items 2)"
  by (simp add: page_items_def one_to_twenty str_of_nat.simps digit_char_def)




lemma get_page2_fails:
  "get_soup site_page2_fails n cat1 = Inr (Some (listing [Href url_a] True))"
  "get_soup site_page2_fails n url_a = Inr (Some item_doc)"
  "get_soup site_page2_fails n cat2 = Inr None"
  "urljoin site_page2_fails b h = h"
  by (simp_all add: site_page2_fails_def get_soup_site urljoin_site url_defs ok_def)

lemma get_page2_raises:
  "get_soup site_page2_raises n cat1 = Inr (Some (listing [Href url_a] True))"
  "get_soup site_page2_raises n url_a = Inr (Some item_doc)"
  "get_soup site_page2_raises n cat2 = Inl RequestException"
  "urljoin site_page2_raises b h = h"
  using get_page2_fails(1,2) [of n]
  by (simp_all add: site_page2_raises_def get_soup_def url_defs)

lemma get_root_page2_raises:
  "get_soup site_root_page2_raises n base_url = Inr (Some root_doc)"
  "get_soup site_root_page2_raises n cat1 = Inr (Some (listing [Href url_a] True))"
  "get_soup site_root_page2_raises n url_a = Inr (Some item_doc)"
  "get_soup site_root_page2_raises n cat2 = Inl RequestException"
  "urljoin site_root_page2_raises b h = h"
  using get_page2_fails(1,2) [of n]
  by (simp_all add: site_root_page2_raises_def get_soup_def url_defs ok_def)

lemma get_root_once:
  "get_soup site_root_once 0 base_url = Inr (Some (listing [Href url_a] True))"
  "n \<noteq> 0 \<Longrightarrow> get_soup site_root_once n base_url = Inr None"
  "get_soup site_root_once n url_a = Inr (Some item_doc)"
  "urljoin site_root_once b h = h"
  by (simp_all add: site_root_once_def get_soup_def url_defs ok_def not_found_def)

lemma get_three_items:
  "get_soup site_three_items n cat1 = Inr (Some (listing [Href url_b, Href url_a, Href url_c] True))"
  "get_soup site_three_items n url_a = Inr (Some item_doc)"
  "get_soup site_three_items n url_b = Inr None"
  "urljoin site_three_items b h = h"
  by (simp_all add: site_three_items_def get_soup_site urljoin_site url_defs ok_def)

lemma extract_three_items:
  "extract_book_data site_three_items n url_a = Inr (Some (item_book url_a))"
  "extract_book_data site_three_items n url_b = Inr None"
  by (simp_all add: extract_book_data_item extract_none_iff get_three_items)

lemma scrape_three_items:
  "scrape_category (Suc k) site_three_items now cat1 (Some 1) =
     Some (Inr \<lparr>books_in_category = [item_book url_a], books_count = 1, clock = now + 3,
                page_requests = [cat1], item_requests = [url_b, url_a],
                failed_items = [url_b]\<rparr>)"
  by (simp add: scrape_category_def Let_def page_url_1 get_three_items extract_three_items
      listing_def init_state_def limit_reached_def)

lemma length_root_items: "length root_items = 10"
  by (simp add: root_items_def length_page_items)

lemma root_items_not_root: "h \<in> set root_items \<Longrightarrow> h \<noteq> base_url"
proof -
  assume "h \<in> set root_items"
  then have "h \<in> set (page_items 1)"
    unfolding root_items_def by (rule in_set_takeD)
  then have "prefix ''http://s/b'' h" by (rule page_items_prefix)
  then show ?thesis by (auto simp: base_url_def)
qed

lemma extract_root_item:
  "h \<in> set root_items \<Longrightarrow> extract_book_data site_root n (urljoin site_root u h) = Inr (Some (item_book h))"
proof -
  assume "h \<in> set root_items"
  then have "h \<noteq> base_url" by (rule root_items_not_root)
  then have "get_soup site_root n h = Inr (Some item_doc)"
    by (simp add: get_soup_def site_root_def ok_def)
  then show ?thesis
    using extract_book_data_item by (simp add: site_root_def)
qed

lemma scrape_root:
  "scrape_category (Suc (Suc k)) site_root now base_url (Some 20) =
     Some (Inr \<lparr>books_in_category = map item_book (root_items @ root_items), books_count = 20,
                clock = now + 22, page_requests = [base_url, base_url],
                item_requests = root_items @ root_items, failed_items = []\<rparr>)"
proof -
  have p2: "page_url base_url (Suc (Suc 0)) = base_url"
    using base_url_no_index by (rule page_url_absent)
  have g: "get_soup site_root n base_url = Inr (Some (listing (map Href root_items) True))" for n
    by (simp add: get_soup_def site_root_def ok_def)
  have n1: "root_items \<noteq> []"
    using length_root_items by auto
  have uj: "urljoin site_root u = (\<lambda>h. h)" for u
    by (simp add: site_root_def)
  show ?thesis
    by (simp add: scrape_category_def Let_def page_url_1 p2 g listing_def n1
        for_books_all_ok [where f = item_book, OF extract_root_item]
        init_state_def limit_reached_def length_root_items uj)
qed

section \<open>The crawl\<close>




text \<open>
  C6. Under a positive limit L a category that returns has gathered at most L books; once
  the count has reached L the item loop returns at once, whatever is left of the page. On
  three pages of twenty items each, all extractable, a limit of 25 gives exactly 25 books:
  the twenty items of page 1 and the first five of page 2 are requested, the other fifteen
  of page 2 and page 3 never.
\<close>

theorem limit_stops_traversal:
  "(0 < L \<and> scrape_category fuel e now category_url (Some L) = Some (Inr st)
      \<longrightarrow> int (length (books_in_category st)) \<le> L)
   \<and> (0 < L \<and> L \<le> int (books_count st0) \<longrightarrow> for_books e url (Some L) bs st0 = Inr st0)
   \<and> scrape_category (Suc (Suc k)) site_3x20 now cat1 (Some 25) =
       Some (Inr \<lparr>books_in_category = map item_book (page_items 1 @ take 5 (page_items 2)),
                  books_count = 25, clock = now + 27, page_requests = [cat1, cat2],
                  item_requests = page_items 1 @ take 5 (page_items 2), failed_items = []\<rparr>)
   \<and> length (page_items 1 @ take 5 (page_items 2)) = 25
   \<and> set (drop 5 (page_items 2)) \<inter> set (page_items 1 @ take 5 (page_items 2)) = {}"
proof -
  have 1: "int (length (books_in_category st)) \<le> L"
    if "0 < L" "scrape_category fuel e now category_url (Some L) = Some (Inr st)"
  proof -
    have "int (books_count st) \<le> L"
      using scrape_pages_bound [OF that(1) that(2) [unfolded scrape_category_def]] that(1)
      by (simp add: init_state_def)
    moreover have "books_count st = length (books_in_category st)"
      using scrape_pages_tally [OF that(2) [unfolded scrape_category_def]]
      by (simp add: init_state_def)
    ultimately show ?thesis by simp
  qed
  have 2: "for_books e url (Some L) bs st0 = Inr st0" if "0 < L" "L \<le> int (books_count st0)"
    using that by (intro for_books_stop) (simp add: limit_reached_def)
  have 4: "length (page_items 1 @ take 5 (page_items 2)) = 25"
    by (simp add: length_page_items)
  have "distinct ((page_items 1 @ take 5 (page_items 2)) @ drop 5 (page_items 2))"
    using page_items_distinct by (simp only: append_assoc append_take_drop_id)
  then have "set (page_items 1 @ take 5 (page_items 2)) \<inter> set (drop 5 (page_items 2)) = {}"
    by (simp only: distinct_append)
  then have 5: "set (drop 5 (page_items 2)) \<inter> set (page_items 1 @ take 5 (page_items 2)) = {}"
    by (simp only: Int_commute)
  show ?thesis
    using 1 2 scrape_3x20 4 5 by blast
qed

theorem limit_stops_traversal_witness:
  "scrape_category 2 site_3x20 0 cat1 (Some 25) =
       Some (Inr \<lparr>books_in_category = map item_book (page_items 1 @ take 5 (page_items 2)),
                  books_count = 25, clock = 27, page_requests = [cat1, cat2],
                  item_requests = page_items 1 @ take 5 (page_items 2), failed_items = []\<rparr>)
   \<and> int (length (map item_book (page_items 1 @ take 5 (page_items 2)))) \<le> 25
   \<and> for_books site_3x20 cat2 (Some 25) (map Href (drop 5 (page_items 2)))
         \<lparr>books_in_category = map item_book (page_items 1 @ take 5 (page_items 2)),
          books_count = 25, clock = 27, page_requests = [cat1, cat2],
          item_requests = page_items 1 @ take 5 (page_items 2), failed_items = []\<rparr>
       = Inr \<lparr>books_in_category = map item_book (page_items 1 @ take 5 (page_items 2)),
              books_count = 25, clock = 27, page_requests = [cat1, cat2],
              item_requests = page_items 1 @ take 5 (page_items 2), failed_items = []\<rparr>"
proof -
  note T = limit_stops_traversal [where L = 25 and fuel = 2 and e = site_3x20 and now = 0
      and category_url = cat1 and k = 0 and url = cat2
      and bs = "map Href (drop 5 (page_items 2))"
      and ?st0.0 = "\<lparr>books_in_category = map item_book (page_items 1 @ take 5 (page_items 2)),
                  books_count = 25, clock = 27, page_requests = [cat1, cat2],
                  item_requests = page_items 1 @ take 5 (page_items 2), failed_items = []\<rparr>"
      and st = "\<lparr>books_in_category = map item_book (page_items 1 @ take 5 (page_items 2)),
                  books_count = 25, clock = 27, page_requests = [cat1, cat2],
                  item_requests = page_items 1 @ take 5 (page_items 2), failed_items = []\<rparr>"]
  have s: "scrape_category 2 site_3x20 0 cat1 (Some 25) =
       Some (Inr \<lparr>books_in_category = map item_book (page_items 1 @ take 5 (page_items 2)),
                  books_count = 25, clock = 27, page_requests = [cat1, cat2],
                  item_requests = page_items 1 @ take 5 (page_items 2), failed_items = []\<rparr>)"
    using T by (simp add: numeral_2_eq_2)
  have "int (length (books_in_category
          \<lparr>books_in_category = map item_book (page_items 1 @ take 5 (page_items 2)),
           books_count = 25, clock = 27, page_requests = [cat1, cat2],
           item_requests = page_items 1 @ take 5 (page_items 2), failed_items = []\<rparr>)) \<le> 25"
    using T s by simp
  moreover have "for_books site_3x20 cat2 (Some 25) (map Href (drop 5 (page_items 2)))
         \<lparr>books_in_category = map item_book (page_items 1 @ take 5 (page_items 2)),
          books_count = 25, clock = 27, page_requests = [cat1, cat2],
          item_requests = page_items 1 @ take 5 (page_items 2), failed_items = []\<rparr>
       = Inr \<lparr>books_in_category = map item_book (page_items 1 @ take 5 (page_items 2)),
              books_count = 25, clock = 27, page_requests = [cat1, cat2],
              item_requests = page_items 1 @ take 5 (page_items 2), failed_items = []\<rparr>"
    using T by simp
  ultimately show ?thesis using s by simp
qed

text \<open>
  C7, as the code has it. Page 1 is fetched and its items are gathered without an
  exception. If the request for page 2 is answered by another status than 200,
  \<open>scrape_category\<close> returns normally, with exactly the books gathered from page 1. If
  the request raises, as it does when the site cannot be reached, the exception leaves
  \<open>scrape_category\<close> and the books of page 1 are not returned. (Where the limit or a
  missing next-page link ends the walk after page 1, page 2 is not even asked for.) The
  request for page 2 is the one the session makes after those of page 1 and its items,
  so this holds as well for a category address without \<open>index.html\<close>, where page 2 has
  the address of page 1.
\<close>

theorem second_page_fetch_fails:
  assumes "get_soup e now category_url = Inr (Some doc1)"
    and "product_pods doc1 \<noteq> []"
    and "for_books e category_url limit (product_pods doc1)
           ((init_state now)\<lparr>clock := now + 1, page_requests := [category_url]\<rparr>) = Inr st1"
  shows "(get_soup e (clock st1) (page_url category_url 2) = Inr None \<longrightarrow>
            scrape_category (Suc (Suc k)) e now category_url limit =
              Some (Inr (if limit_reached limit (books_count st1) \<or> \<not> next_button doc1 then st1
                         else st1\<lparr>clock := clock st1 + 1,
                                  page_requests := page_requests st1 @ [page_url category_url 2]\<rparr>))
            \<and> map_option (map_sum id books_in_category)
                (scrape_category (Suc (Suc k)) e now category_url limit)
              = Some (Inr (books_in_category st1)))
       \<and> (get_soup e (clock st1) (page_url category_url 2) = Inl err \<longrightarrow>
            scrape_category (Suc (Suc k)) e now category_url limit =
              Some (if limit_reached limit (books_count st1) \<or> \<not> next_button doc1 then Inr st1
                    else Inl err))"
  using assms
  by (simp add: scrape_category_def Let_def page_url_1 init_state_def numeral_2_eq_2)

text \<open>
  C7 as stated fails: on a site whose second page cannot be reached, the one book of page 1
  is gathered, the request for page 2 raises, and the exception leaves \<open>scrape_category\<close>
  and \<open>scrape_all_categories\<close>: no book is returned.
\<close>

theorem second_page_raises_counterexample:
  "for_books site_page2_raises cat1 None [Href url_a]
       ((init_state 0)\<lparr>clock := 1, page_requests := [cat1]\<rparr>)
     = Inr \<lparr>books_in_category = [item_book url_a], books_count = 1, clock = 2,
            page_requests = [cat1], item_requests = [url_a], failed_items = []\<rparr>
   \<and> get_soup site_page2_raises 2 (page_url cat1 2) = Inl RequestException
   \<and> scrape_category 2 site_page2_raises 0 cat1 None = Some (Inl RequestException)
   \<and> scrape_all_categories 2 site_root_page2_raises 0 10 [] = Some (Inl RequestException)"
proof -
  have p2: "page_url cat1 (Suc (Suc 0)) = cat2"
    using page_url_cat1_2 by (simp add: numeral_2_eq_2)
  have 1: "for_books site_page2_raises cat1 None [Href url_a]
       ((init_state 0)\<lparr>clock := 1, page_requests := [cat1]\<rparr>)
     = Inr \<lparr>books_in_category = [item_book url_a], books_count = 1, clock = 2,
            page_requests = [cat1], item_requests = [url_a], failed_items = []\<rparr>"
    by (simp add: limit_reached_def get_page2_raises extract_book_data_item init_state_def)
  have 2: "get_soup site_page2_raises 2 (page_url cat1 2) = Inl RequestException"
    by (simp add: page_url_cat1_2 get_page2_raises)
  have 3: "scrape_category 2 site_page2_raises 0 cat1 None = Some (Inl RequestException)"
    by (simp add: scrape_category_def Let_def page_url_1 p2 numeral_2_eq_2 get_page2_raises
        extract_book_data_item listing_def init_state_def limit_reached_def)
  have "scrape_category (Suc (Suc 0)) site_root_page2_raises (Suc 0) cat1 (Some 10)
          = Some (Inl RequestException)"
    by (simp add: scrape_category_def Let_def page_url_1 p2 get_root_page2_raises
        extract_book_data_item listing_def init_state_def limit_reached_def)
  then have 4: "scrape_all_categories 2 site_root_page2_raises 0 10 [] = Some (Inl RequestException)"
    by (simp add: scrape_all_categories_def get_root_page2_raises root_doc_def listing_def
        http_cat1 numeral_2_eq_2)
  show ?thesis using 1 2 3 4 by simp
qed

theorem second_page_fetch_fails_witness:
  "get_soup site_page2_fails 2 (page_url cat1 2) = Inr None
   \<and> scrape_category 2 site_page2_fails 0 cat1 None =
       Some (Inr \<lparr>books_in_category = [item_book url_a], books_count = 1, clock = 3,
                  page_requests = [cat1, cat2], item_requests = [url_a], failed_items = []\<rparr>)
   \<and> get_soup site_root_once 2 (page_url base_url 2) = Inr None
   \<and> scrape_category 2 site_root_once 0 base_url None =
       Some (Inr \<lparr>books_in_category = [item_book url_a], books_count = 1, clock = 3,
                  page_requests = [base_url, base_url], item_requests = [url_a],
                  failed_items = []\<rparr>)
   \<and> get_soup site_page2_raises 2 (page_url cat1 2) = Inl RequestException
   \<and> scrape_category 2 site_page2_raises 0 cat1 None = Some (Inl RequestException)"
proof -
  have p: "product_pods (listing [Href url_a] True) \<noteq> []"
    by (simp add: listing_def)
  have pb: "page_url base_url 2 = base_url"
    using base_url_no_index by (rule page_url_absent)
  have pb': "page_url base_url (Suc (Suc 0)) = base_url"
    using base_url_no_index by (rule page_url_absent)
  have p2: "page_url cat1 (Suc (Suc 0)) = cat2"
    using page_url_cat1_2 by (simp add: numeral_2_eq_2)
  have g2: "get_soup site_page2_fails 2 (page_url cat1 2) = Inr None"
    by (simp add: page_url_cat1_2 get_page2_fails)
  have fb: "for_books site_page2_fails cat1 None (product_pods (listing [Href url_a] True))
              ((init_state 0)\<lparr>clock := 0 + 1, page_requests := [cat1]\<rparr>) =
            Inr \<lparr>books_in_category = [item_book url_a], books_count = 1, clock = 2,
                  page_requests = [cat1], item_requests = [url_a], failed_items = []\<rparr>"
    by (simp add: listing_def limit_reached_def get_page2_fails extract_book_data_item
        init_state_def)
  have r2: "get_soup site_root_once 2 (page_url base_url 2) = Inr None"
    by (simp add: pb get_root_once)
  have fr: "for_books site_root_once base_url None (product_pods (listing [Href url_a] True))
              ((init_state 0)\<lparr>clock := 0 + 1, page_requests := [base_url]\<rparr>) =
            Inr \<lparr>books_in_category = [item_book url_a], books_count = 1, clock = 2,
                  page_requests = [base_url], item_requests = [url_a], failed_items = []\<rparr>"
    by (simp add: listing_def limit_reached_def get_root_once extract_book_data_item
        init_state_def)
  have x2: "get_soup site_page2_raises 2 (page_url cat1 2) = Inl RequestException"
    by (simp add: page_url_cat1_2 get_page2_raises)
  have fx: "for_books site_page2_raises cat1 None (product_pods (listing [Href url_a] True))
              ((init_state 0)\<lparr>clock := 0 + 1, page_requests := [cat1]\<rparr>) =
            Inr \<lparr>books_in_category = [item_book url_a], books_count = 1, clock = 2,
                  page_requests = [cat1], item_requests = [url_a], failed_items = []\<rparr>"
    by (simp add: listing_def limit_reached_def get_page2_raises extract_book_data_item
        init_state_def)
  have a: "scrape_category 2 site_page2_fails 0 cat1 None =
       Some (Inr \<lparr>books_in_category = [item_book url_a], books_count = 1, clock = 3,
                  page_requests = [cat1, cat2], item_requests = [url_a], failed_items = []\<rparr>)"
    using second_page_fetch_fails [OF get_page2_fails(1) p fb, where k = 0] g2
    by (simp add: limit_reached_def listing_def p2 numeral_2_eq_2)
  have b: "scrape_category 2 site_root_once 0 base_url None =
       Some (Inr \<lparr>books_in_category = [item_book url_a], books_count = 1, clock = 3,
                  page_requests = [base_url, base_url], item_requests = [url_a],
                  failed_items = []\<rparr>)"
    using second_page_fetch_fails [OF get_root_once(1) p fr, where k = 0] r2
    by (simp add: limit_reached_def listing_def pb' numeral_2_eq_2)
  have c: "scrape_category 2 site_page2_raises 0 cat1 None = Some (Inl RequestException)"
    using second_page_fetch_fails [OF get_page2_raises(1) p fx, where err = RequestException
        and k = 0] x2
    by (simp add: limit_reached_def listing_def numeral_2_eq_2)
  show ?thesis using g2 a r2 b x2 c by simp
qed

text \<open>
  C8. For a category address that does not contain \<open>index.html\<close> the address of every
  page is the category address itself, so every listing request of the walk goes to that
  one address; when the walk goes on after page 1, its next request asks for the first
  page again. The site root, which the test path of the main program scrapes, is such an
  address: on a root page of ten items and a next-page link the test path asks for the
  root twice and returns every book twice.
\<close>

theorem page_address_without_token:
  "(\<not> str_contains ''index.html'' category_url \<longrightarrow>
      page_url category_url page_num = category_url
      \<and> (\<forall>st. scrape_category fuel e now category_url limit = Some (Inr st)
            \<longrightarrow> (\<exists>n. page_requests st = replicate (Suc n) category_url))
      \<and> (get_soup e now category_url = Inr (Some doc1) \<and> product_pods doc1 \<noteq> []
           \<and> for_books e category_url limit (product_pods doc1)
               ((init_state now)\<lparr>clock := now + 1, page_requests := [category_url]\<rparr>) = Inr st1
           \<and> \<not> limit_reached limit (books_count st1) \<and> next_button doc1 \<longrightarrow>
          scrape_category (Suc fuel) e now category_url limit
            = scrape_pages fuel e category_url limit 2 st1
          \<and> (\<forall>st. scrape_category (Suc fuel) e now category_url limit = Some (Inr st) \<longrightarrow>
                (\<exists>n. page_requests st = category_url # category_url # replicate n category_url))))
   \<and> \<not> str_contains ''index.html'' base_url
   \<and> main_test fuel e
       = map_option (map_sum id books_in_category) (scrape_category fuel e 0 base_url (Some 20))
   \<and> scrape_category (Suc (Suc k)) site_root 0 base_url (Some 20) =
       Some (Inr \<lparr>books_in_category = map item_book (root_items @ root_items), books_count = 20,
                  clock = 22, page_requests = [base_url, base_url],
                  item_requests = root_items @ root_items, failed_items = []\<rparr>)
   \<and> main_test (Suc (Suc k)) site_root = Some (Inr (map item_book (root_items @ root_items)))"
proof -
  have 1: "page_url category_url page_num = category_url"
    if "\<not> str_contains ''index.html'' category_url"
    using that by (rule page_url_absent)
  have 2: "\<exists>n. page_requests st = replicate (Suc n) category_url"
    if "\<not> str_contains ''index.html'' category_url"
       "scrape_category fuel e now category_url limit = Some (Inr st)" for st
    using scrape_pages_same_url [OF that(1), of fuel e limit 1 "init_state now" st] that(2)
    by (simp add: scrape_category_def init_state_def)
  have adv: "scrape_category (Suc fuel) e now category_url limit
            = scrape_pages fuel e category_url limit 2 st1"
    if "get_soup e now category_url = Inr (Some doc1)" "product_pods doc1 \<noteq> []"
       "for_books e category_url limit (product_pods doc1)
               ((init_state now)\<lparr>clock := now + 1, page_requests := [category_url]\<rparr>) = Inr st1"
       "\<not> limit_reached limit (books_count st1)" "next_button doc1"
    using that
    by (simp add: scrape_category_def Let_def page_url_1 init_state_def numeral_2_eq_2)
  have again: "\<exists>n. page_requests st = category_url # category_url # replicate n category_url"
    if c: "\<not> str_contains ''index.html'' category_url"
      and "get_soup e now category_url = Inr (Some doc1)" "product_pods doc1 \<noteq> []"
      and fb: "for_books e category_url limit (product_pods doc1)
               ((init_state now)\<lparr>clock := now + 1, page_requests := [category_url]\<rparr>) = Inr st1"
      and "\<not> limit_reached limit (books_count st1)" "next_button doc1"
      and r: "scrape_category (Suc fuel) e now category_url limit = Some (Inr st)" for st
  proof -
    have "scrape_pages fuel e category_url limit 2 st1 = Some (Inr st)"
      using adv [OF that(2,3,4,5,6)] r by simp
    from scrape_pages_same_url [OF c this] obtain n
      where n: "page_requests st = page_requests st1 @ replicate (Suc n) category_url"
      by blast
    have "page_requests st1 = [category_url]"
      using page_requests_for_books [OF fb] by (simp add: init_state_def)
    then have "page_requests st = category_url # category_url # replicate n category_url"
      using n by simp
    then show ?thesis by blast
  qed
  have 3: "main_test fuel e
       = map_option (map_sum id books_in_category) (scrape_category fuel e 0 base_url (Some 20))"
    by (simp add: main_test_def split: option.splits sum.splits)
  have 4: "scrape_category (Suc (Suc k)) site_root 0 base_url (Some 20) =
       Some (Inr \<lparr>books_in_category = map item_book (root_items @ root_items), books_count = 20,
                  clock = 22, page_requests = [base_url, base_url],
                  item_requests = root_items @ root_items, failed_items = []\<rparr>)"
    using scrape_root [of k 0] by simp
  have 5: "main_test (Suc (Suc k)) site_root = Some (Inr (map item_book (root_items @ root_items)))"
    by (simp add: main_test_def 4)
  show ?thesis using 1 2 adv again 3 4 5 base_url_no_index by blast
qed

theorem page_address_without_token_witness:
  "\<not> str_contains ''index.html'' base_url \<and> page_url base_url 2 = base_url
   \<and> page_url base_url 3 = base_url
   \<and> scrape_category 2 site_root 0 base_url (Some 20) =
       Some (Inr \<lparr>books_in_category = map item_book (root_items @ root_items), books_count = 20,
                  clock = 22, page_requests = [base_url, base_url],
                  item_requests = root_items @ root_items, failed_items = []\<rparr>)
   \<and> (\<exists>n. [base_url, base_url] = replicate (Suc n) base_url)
   \<and> for_books site_root base_url (Some 20) (map Href root_items)
         ((init_state 0)\<lparr>clock := 1, page_requests := [base_url]\<rparr>)
       = Inr \<lparr>books_in_category = map item_book root_items, books_count = 10, clock = 11,
              page_requests = [base_url], item_requests = root_items, failed_items = []\<rparr>
   \<and> (\<exists>n. [base_url, base_url] = base_url # base_url # replicate n base_url)
   \<and> main_test 2 site_root = Some (Inr (map item_book (root_items @ root_items)))"
proof -
  note T = page_address_without_token [where category_url = base_url and fuel = 2
      and e = site_root and now = 0 and limit = "Some 20" and k = 0]
  have n: "\<not> str_contains ''index.html'' base_url"
    using T by blast
  have p: "page_url base_url 2 = base_url" "page_url base_url 3 = base_url"
    using T [where page_num = 2] T [where page_num = 3] by blast+
  have s: "scrape_category 2 site_root 0 base_url (Some 20) =
       Some (Inr \<lparr>books_in_category = map item_book (root_items @ root_items), books_count = 20,
                  clock = 22, page_requests = [base_url, base_url],
                  item_requests = root_items @ root_items, failed_items = []\<rparr>)"
    using T by (simp add: numeral_2_eq_2)
  have m: "main_test 2 site_root = Some (Inr (map item_book (root_items @ root_items)))"
    using T by (simp add: numeral_2_eq_2)
  have "\<exists>n. page_requests \<lparr>books_in_category = map item_book (root_items @ root_items),
                  books_count = 20, clock = 22, page_requests = [base_url, base_url],
                  item_requests = root_items @ root_items, failed_items = []\<rparr>
            = replicate (Suc n) base_url"
    using T n s by blast
  then have r: "\<exists>n. [base_url, base_url] = replicate (Suc n) base_url"
    by simp
  have g: "get_soup site_root 0 base_url = Inr (Some (listing (map Href root_items) True))"
    by (simp add: get_soup_def site_root_def ok_def)
  have pods: "product_pods (listing (map Href root_items) True) = map Href root_items"
    by (simp add: listing_def)
  have ne: "product_pods (listing (map Href root_items) True) \<noteq> []"
    using length_root_items by (auto simp: pods)
  have nb: "next_button (listing (map Href root_items) True)"
    by (simp add: listing_def)
  have uj: "urljoin site_root u = (\<lambda>h. h)" for u
    by (simp add: site_root_def)
  have fb: "for_books site_root base_url (Some 20) (map Href root_items)
         ((init_state 0)\<lparr>clock := 1, page_requests := [base_url]\<rparr>)
       = Inr \<lparr>books_in_category = map item_book root_items, books_count = 10, clock = 11,
              page_requests = [base_url], item_requests = root_items, failed_items = []\<rparr>"
    by (simp add: for_books_all_ok [where f = item_book, OF extract_root_item]
        init_state_def length_root_items uj)
  have fb': "for_books site_root base_url (Some 20)
         (product_pods (listing (map Href root_items) True))
         ((init_state 0)\<lparr>clock := 0 + 1, page_requests := [base_url]\<rparr>)
       = Inr \<lparr>books_in_category = map item_book root_items, books_count = 10, clock = 11,
              page_requests = [base_url], item_requests = root_items, failed_items = []\<rparr>"
    using fb by (simp add: pods)
  have nl: "\<not> limit_reached (Some 20) (books_count
          \<lparr>books_in_category = map item_book root_items, books_count = 10, clock = 11,
           page_requests = [base_url], item_requests = root_items, failed_items = []\<rparr>)"
    by (simp add: limit_reached_def)
  have s': "scrape_category (Suc 1) site_root 0 base_url (Some 20) =
       Some (Inr \<lparr>books_in_category = map item_book (root_items @ root_items), books_count = 20,
                  clock = 22, page_requests = [base_url, base_url],
                  item_requests = root_items @ root_items, failed_items = []\<rparr>)"
    using s by (simp add: numeral_2_eq_2)
  note A = page_address_without_token [where category_url = base_url and fuel = 1
      and e = site_root and now = 0 and limit = "Some 20"
      and ?doc1.0 = "listing (map Href root_items) True"
      and ?st1.0 = "\<lparr>books_in_category = map item_book root_items, books_count = 10,
           clock = 11, page_requests = [base_url], item_requests = root_items,
           failed_items = []\<rparr>"]
  have "\<exists>n. page_requests \<lparr>books_in_category = map item_book (root_items @ root_items),
                  books_count = 20, clock = 22, page_requests = [base_url, base_url],
                  item_requests = root_items @ root_items, failed_items = []\<rparr>
            = base_url # base_url # replicate n base_url"
    using A n g ne fb' nl nb s' by blast
  then have r2: "\<exists>n. [base_url, base_url] = base_url # base_url # replicate n base_url"
    by simp
  show ?thesis using n p s r fb r2 m by blast
qed

text \<open>
  C9. \<open>scrape_category\<close> with limit 0 and with no limit give the same result, whatever
  the site, the time and the number of rounds.
\<close>

theorem limit_zero_is_no_limit:
  "scrape_category fuel e now category_url (Some 0) = scrape_category fuel e now category_url None"
  by (simp add: scrape_category_def scrape_pages_limit_zero)

theorem limit_zero_is_no_limit_witness:
  "scrape_category 1 site_one_failing 0 cat1 (Some 0) =
     Some (Inr \<lparr>books_in_category = [item_book url_a], books_count = 1, clock = 3,
                page_requests = [cat1], item_requests = [url_b, url_a],
                failed_items = [url_b]\<rparr>)"
  using limit_zero_is_no_limit [of 1 site_one_failing 0 cat1]
    scrape_one_failing [of None 0 0]
  by (simp add: limit_reached_def)

text \<open>
  C10, as the code has it. The limit is compared with the number of books gathered, which
  equals the number of records and, under a positive limit, never passes it; an item whose
  extraction yields nothing is requested and leaves that number as it was. The item pages
  requested are the books plus the requests that yielded nothing. So when the walk ends
  with the limit reached and some item request has yielded nothing, more than limit item
  pages have been requested; a walk that ends before the limit is reached may have
  requested fewer.
\<close>

theorem limit_counts_records:
  assumes "scrape_category fuel e now category_url limit = Some (Inr st)"
  shows "books_count st = length (books_in_category st)
       \<and> length (item_requests st) = length (books_in_category st) + length (failed_items st)
       \<and> (limit = Some L \<and> 0 < L \<longrightarrow> int (length (books_in_category st)) \<le> L)
       \<and> (limit = Some L \<and> limit_reached limit (books_count st) \<and> failed_items st \<noteq> []
          \<longrightarrow> L < int (length (item_requests st)))
       \<and> (\<not> limit_reached limit (books_count st0)
            \<and> extract_book_data e (clock st0) (urljoin e url h) = Inr None
          \<longrightarrow> for_books e url limit (Href h # bs) st0
              = for_books e url limit bs
                  (st0\<lparr>clock := clock st0 + 1,
                       item_requests := item_requests st0 @ [urljoin e url h],
                       failed_items := failed_items st0 @ [urljoin e url h]\<rparr>))"
proof -
  have t: "length (item_requests st) = length (books_in_category st) + length (failed_items st)"
       "books_count st = length (books_in_category st)"
    using scrape_pages_tally [OF assms [unfolded scrape_category_def]]
    by (simp_all add: init_state_def)
  have b: "int (length (books_in_category st)) \<le> L" if "limit = Some L" "0 < L"
    using scrape_pages_bound [OF that(2) assms [unfolded scrape_category_def that(1)]] that(2) t(2)
    by (simp add: init_state_def)
  have s: "L < int (length (item_requests st))"
    if "limit = Some L" "limit_reached limit (books_count st)" "failed_items st \<noteq> []"
  proof -
    have "L \<le> int (books_count st)"
      using that(1,2) by (simp add: limit_reached_def)
    moreover have "0 < length (failed_items st)"
      using that(3) by simp
    ultimately show ?thesis using t by linarith
  qed
  have f: "for_books e url limit (Href h # bs) st0
              = for_books e url limit bs
                  (st0\<lparr>clock := clock st0 + 1,
                       item_requests := item_requests st0 @ [urljoin e url h],
                       failed_items := failed_items st0 @ [urljoin e url h]\<rparr>)"
    if "\<not> limit_reached limit (books_count st0)"
       "extract_book_data e (clock st0) (urljoin e url h) = Inr None"
    using that by (simp add: Let_def)
  show ?thesis using t b s f by blast
qed

text \<open>
  C10 as stated fails: with a limit of 10 on the category of two items of which one has
  no page, one extraction yields nothing and two item pages are requested, not more
  than 10.
\<close>

theorem limit_not_reached_counterexample:
  "scrape_category 1 site_one_failing 0 cat1 (Some 10) =
     Some (Inr \<lparr>books_in_category = [item_book url_a], books_count = 1, clock = 3,
                page_requests = [cat1], item_requests = [url_b, url_a],
                failed_items = [url_b]\<rparr>)
   \<and> extract_book_data site_one_failing 1 url_b = Inr None
   \<and> int (length [url_b, url_a]) \<le> 10"
  using scrape_one_failing [of "Some 10" 0 0]
  by (simp add: limit_reached_def extract_one_failing)

text \<open>
  With a limit of 1 on a page of three items, the first of which has no page: two item
  pages are requested for the one book, and the third item is never asked for.
\<close>

theorem limit_counts_records_witness:
  "scrape_category 1 site_three_items 0 cat1 (Some 1) =
     Some (Inr \<lparr>books_in_category = [item_book url_a], books_count = 1, clock = 3,
                page_requests = [cat1], item_requests = [url_b, url_a],
                failed_items = [url_b]\<rparr>)
   \<and> limit_reached (Some 1) 1
   \<and> (1 :: int) < int (length [url_b, url_a])
   \<and> url_c \<notin> set [url_b, url_a]
   \<and> extract_book_data site_three_items 1 url_b = Inr None
   \<and> for_books site_three_items cat1 (Some 1) [Href url_b, Href url_a, Href url_c]
         ((init_state 0)\<lparr>clock := 1, page_requests := [cat1]\<rparr>)
       = Inr \<lparr>books_in_category = [item_book url_a], books_count = 1, clock = 3,
              page_requests = [cat1], item_requests = [url_b, url_a],
              failed_items = [url_b]\<rparr>"
proof -
  have s: "scrape_category 1 site_three_items 0 cat1 (Some 1) =
     Some (Inr \<lparr>books_in_category = [item_book url_a], books_count = 1, clock = 3,
                page_requests = [cat1], item_requests = [url_b, url_a],
                failed_items = [url_b]\<rparr>)"
    using scrape_three_items [of 0 0] by simp
  have l: "limit_reached (Some 1) 1"
    by (simp add: limit_reached_def)
  have c: "url_c \<notin> set [url_b, url_a]"
    by (simp add: url_defs)
  have "(1 :: int) < int (length (item_requests
          \<lparr>books_in_category = [item_book url_a], books_count = 1, clock = 3,
           page_requests = [cat1], item_requests = [url_b, url_a],
           failed_items = [url_b]\<rparr>))"
    using limit_counts_records [OF s, where L = 1] l by simp
  then have x: "(1 :: int) < int (length [url_b, url_a])"
    by simp
  have nl: "\<not> limit_reached (Some 1)
              (books_count ((init_state 0)\<lparr>clock := 1, page_requests := [cat1]\<rparr>))"
    by (simp add: limit_reached_def init_state_def)
  have eb: "extract_book_data site_three_items 1 url_b = Inr None"
    by (rule extract_three_items)
  have eb': "extract_book_data site_three_items
               (clock ((init_state 0)\<lparr>clock := 1, page_requests := [cat1]\<rparr>))
               (urljoin site_three_items cat1 url_b) = Inr None"
    by (simp add: get_three_items extract_three_items)
  have "for_books site_three_items cat1 (Some 1) (Href url_b # [Href url_a, Href url_c])
          ((init_state 0)\<lparr>clock := 1, page_requests := [cat1]\<rparr>)
        = for_books site_three_items cat1 (Some 1) [Href url_a, Href url_c]
            ((init_state 0)\<lparr>clock := 1, page_requests := [cat1]\<rparr>
              \<lparr>clock := clock ((init_state 0)\<lparr>clock := 1, page_requests := [cat1]\<rparr>) + 1,
               item_requests := item_requests
                  ((init_state 0)\<lparr>clock := 1, page_requests := [cat1]\<rparr>)
                  @ [urljoin site_three_items cat1 url_b],
               failed_items := failed_items
                  ((init_state 0)\<lparr>clock := 1, page_requests := [cat1]\<rparr>)
                  @ [urljoin site_three_items cat1 url_b]\<rparr>)"
    using limit_counts_records [OF s, where L = 1 and url = cat1 and h = url_b
        and ?st0.0 = "(init_state 0)\<lparr>clock := 1, page_requests := [cat1]\<rparr>"
        and bs = "[Href url_a, Href url_c]"] nl eb'
    by blast
  then have f: "for_books site_three_items cat1 (Some 1) [Href url_b, Href url_a, Href url_c]
         ((init_state 0)\<lparr>clock := 1, page_requests := [cat1]\<rparr>)
       = Inr \<lparr>books_in_category = [item_book url_a], books_count = 1, clock = 3,
              page_requests = [cat1], item_requests = [url_b, url_a],
              failed_items = [url_b]\<rparr>"
    by (simp add: init_state_def limit_reached_def get_three_items extract_three_items)
  show ?thesis using s l c x eb f by blast
qed

end
